theory Spec2Isabelle
  imports Main "HOL-Library.Word"
begin

section \<open>InfiniBand device utilities\<close>

text \<open>
  A shallow embedding of \<^verbatim>\<open>internal/server/device/device_utils_infiniband.go\<close>.
  Every function of that file is a HOL function of the same name. The file calls four
  kinds of code that it does not contain:
  \<^item> pure functions of the Go standard library (\<^verbatim>\<open>net.ParseMAC\<close>,
    \<^verbatim>\<open>strconv.ParseUint\<close>, \<^verbatim>\<open>strings.TrimSpace\<close>, \<^verbatim>\<open>strings.ContainsAny\<close>,
    \<^verbatim>\<open>fmt.Sprintf("%d")\<close>), modelled below from the library's sources;
  \<^item> the operating system (\<^verbatim>\<open>os.ReadFile\<close>);
  \<^item> collaborators of other packages of the repository (\<^verbatim>\<open>NetworkGetDevMAC\<close>,
    \<^verbatim>\<open>NetworkSetDevMAC\<close>, \<^verbatim>\<open>unixDeviceSetup\<close>, \<^verbatim>\<open>ip.Link.SetNodeGUID\<close>,
    \<^verbatim>\<open>ip.Link.SetPortGUID\<close>);
  \<^item> the types of \<^verbatim>\<open>shared/api\<close> (the network inventory).
  The operating system and the collaborators are parameters of the model: a record of
  functions over an arbitrary world, so that every theorem holds whatever they do.
\<close>

subsection \<open>Bytes, errors and panics\<close>

type_synonym byte = "8 word"

datatype numError = ErrSyntax | ErrRange

text \<open>
  A Go \<^verbatim>\<open>error\<close> value. There is one constructor for each \<^verbatim>\<open>fmt.Errorf\<close> of the file,
  carrying the arguments of its format string (the last one is the wrapped error, where the
  format ends in \<^verbatim>\<open>%w\<close>):
  \<^item> \<open>ErrNoInfinibandDevices\<close>: "No infiniband devices supplied";
  \<^item> \<open>ErrInvalidMAC\<close>: "Invalid value, must be either 8 or 20 bytes of hex separated by colons";
  \<^item> \<open>ErrInvalidLength\<close>: "Invalid length";
  \<^item> \<open>ErrInvalidGUID\<close>: "Invalid value, must be 8 bytes of hex separated by colons";
  \<^item> \<open>ErrConvertVFID host raw e\<close>: "Failed to convert vfID for host vfID raw: e";
  \<^item> \<open>ErrRestoreNodeGUID host vf guid e\<close>: "Failed to restore device host (VF vf) node_guid to guid: e";
  \<^item> \<open>ErrRestorePortGUID host vf guid e\<close>: the same for port_guid;
  \<^item> \<open>ErrParseNodeGUID guid e\<close>: "Failed parsing node_guid guid: e";
  \<^item> \<open>ErrParsePortGUID guid e\<close>: "Failed parsing port_guid guid: e".
  \<open>AddrError\<close> and \<open>NumError\<close> are the errors of \<^verbatim>\<open>net.ParseMAC\<close> and
  \<^verbatim>\<open>strconv.ParseUint\<close>; \<open>ExternalError\<close> stands for an error of the operating system or of
  a collaborator, named by its message.
\<close>

datatype error =
    ExternalError string
  | AddrError string string
  | NumError string string numError
  | ErrNoInfinibandDevices
  | ErrInvalidMAC
  | ErrInvalidLength
  | ErrInvalidGUID
  | ErrConvertVFID string string error
  | ErrRestoreNodeGUID string int string error
  | ErrRestorePortGUID string int string error
  | ErrParseNodeGUID string error
  | ErrParsePortGUID string error

text \<open>A run-time panic: the slice expression \<^verbatim>\<open>s[:hi]\<close> on a string of \<open>len\<close> bytes, \<open>len < hi\<close>.\<close>

datatype panic = SliceBoundsOutOfRange nat nat

text \<open>The slice \<^verbatim>\<open>s[:hi]\<close> of a Go string: it panics when \<open>hi\<close> exceeds the length.\<close>

definition slice_to :: "string \<Rightarrow> nat \<Rightarrow> panic + string" where
  "slice_to s hi = (if length s < hi then Inl (SliceBoundsOutOfRange hi (length s)) else Inr (take hi s))"

subsection \<open>The Go standard library\<close>

text \<open>
  \<^verbatim>\<open>net.xtoi\<close> (net/parse.go): hexadecimal to integer; it returns the number, the
  characters consumed and success. \<open>xtoi_from n i\<close> is its loop, entered with the number
  \<open>n\<close> read so far and the index \<open>i\<close>.
\<close>

definition hexval :: "char \<Rightarrow> nat option" where
  "hexval c =
     (let k = (of_char c :: nat) in
      if 48 \<le> k \<and> k \<le> 57 then Some (k - 48)
      else if 97 \<le> k \<and> k \<le> 102 then Some (k - 97 + 10)
      else if 65 \<le> k \<and> k \<le> 70 then Some (k - 65 + 10)
      else None)"

definition big :: nat where
  "big = 0xFFFFFF"

fun xtoi_from :: "nat \<Rightarrow> nat \<Rightarrow> string \<Rightarrow> nat \<times> nat \<times> bool" where
  "xtoi_from n i [] = (if i = 0 then (0, i, False) else (n, i, True))"
| "xtoi_from n i (c # cs) =
     (case hexval c of
        None \<Rightarrow> (if i = 0 then (0, i, False) else (n, i, True))
      | Some d \<Rightarrow>
          (if big \<le> n * 16 + d then (0, i, False)
           else xtoi_from (n * 16 + d) (Suc i) cs))"

definition xtoi :: "string \<Rightarrow> nat \<times> nat \<times> bool" where
  "xtoi s = xtoi_from 0 0 s"

text \<open>
  \<^verbatim>\<open>net.xtoi2(s, e)\<close>: the next two hex digits of \<open>s\<close> as a byte; when \<open>s\<close> is longer than
  two bytes, the third must be \<open>e\<close>. \<^verbatim>\<open>net.ParseMAC\<close> calls it on strings of two bytes
  at least, so that its slice \<^verbatim>\<open>s[:2]\<close> is in range.
\<close>

definition xtoi2 :: "string \<Rightarrow> char \<Rightarrow> byte option" where
  "xtoi2 s e =
     (if 2 < length s \<and> s ! 2 \<noteq> e then None
      else (case xtoi (take 2 s) of
              (n, ei, ok) \<Rightarrow> if ok \<and> ei = 2 then Some (of_nat n) else None))"

text \<open>
  \<^verbatim>\<open>net.ParseMAC\<close> (net/mac.go). \<open>colonGroups e k s\<close> is the loop of the colon and dash
  forms with \<open>k\<close> bytes left to read and \<open>s\<close> the rest of the input (\<^verbatim>\<open>s[x:]\<close>);
  \<open>dotGroups e k s\<close> is the loop of the dotted form, two bytes at a time.
\<close>

fun colonGroups :: "char \<Rightarrow> nat \<Rightarrow> string \<Rightarrow> byte list option" where
  "colonGroups e 0 s = Some []"
| "colonGroups e (Suc k) s =
     (case xtoi2 s e of
        None \<Rightarrow> None
      | Some b \<Rightarrow>
          (case colonGroups e k (drop 3 s) of
             None \<Rightarrow> None
           | Some bs \<Rightarrow> Some (b # bs)))"

fun dotGroups :: "char \<Rightarrow> nat \<Rightarrow> string \<Rightarrow> byte list option" where
  "dotGroups e 0 s = Some []"
| "dotGroups e (Suc k) s =
     (case xtoi2 (take 2 s) (CHR 0x00) of
        None \<Rightarrow> None
      | Some b0 \<Rightarrow>
          (case xtoi2 (drop 2 s) e of
             None \<Rightarrow> None
           | Some b1 \<Rightarrow>
               (case dotGroups e k (drop 5 s) of
                  None \<Rightarrow> None
                | Some bs \<Rightarrow> Some (b0 # b1 # bs))))"

definition ParseMAC :: "string \<Rightarrow> error + byte list" where
  "ParseMAC s =
     (let err = Inl (AddrError ''invalid MAC address'' s) in
      if length s < 14 then err
      else if s ! 2 = CHR '':'' \<or> s ! 2 = CHR ''-'' then
        (if (length s + 1) mod 3 \<noteq> 0 then err
         else
           (let n = (length s + 1) div 3 in
            if n \<noteq> 6 \<and> n \<noteq> 8 \<and> n \<noteq> 20 then err
            else (case colonGroups (s ! 2) n s of None \<Rightarrow> err | Some hw \<Rightarrow> Inr hw)))
      else if s ! 4 = CHR ''.'' then
        (if (length s + 1) mod 5 \<noteq> 0 then err
         else
           (let n = 2 * (length s + 1) div 5 in
            if n \<noteq> 6 \<and> n \<noteq> 8 \<and> n \<noteq> 20 then err
            else (case dotGroups (s ! 4) (n div 2) s of None \<Rightarrow> err | Some hw \<Rightarrow> Inr hw)))
      else err)"

text \<open>
  \<^verbatim>\<open>strconv.ParseUint(s, 10, 32)\<close>: no sign, no underscore, decimal digits only, and
  the value at most \<open>2^32 - 1\<close>. The loop stops at the first character that is not a digit
  (a syntax error) or at the first digit that takes the value out of range.
\<close>

fun ParseUint_from :: "nat \<Rightarrow> string \<Rightarrow> numError + nat" where
  "ParseUint_from n [] = Inr n"
| "ParseUint_from n (c # cs) =
     (let k = (of_char c :: nat) in
      if 48 \<le> k \<and> k \<le> 57 then
        (if 2 ^ 32 - 1 < n * 10 + (k - 48) then Inl ErrRange
         else ParseUint_from (n * 10 + (k - 48)) cs)
      else Inl ErrSyntax)"

definition ParseUint_10_32 :: "string \<Rightarrow> error + nat" where
  "ParseUint_10_32 s =
     (if s = [] then Inl (NumError ''ParseUint'' s ErrSyntax)
      else (case ParseUint_from 0 s of
              Inl e \<Rightarrow> Inl (NumError ''ParseUint'' s e)
            | Inr n \<Rightarrow> Inr n))"

text \<open>\<^verbatim>\<open>fmt.Sprintf("%d", i)\<close>: the decimal digits of an integer, with a minus sign.\<close>

fun digits :: "nat \<Rightarrow> string" where
  "digits n =
     (if n < 10 then [''0123456789'' ! n]
      else digits (n div 10) @ [''0123456789'' ! (n mod 10)])"

declare digits.simps [simp del]

definition Sprintf_d :: "int \<Rightarrow> string" where
  "Sprintf_d i = (if i < 0 then CHR ''-'' # digits (nat (- i)) else digits (nat i))"

text \<open>
  \<^verbatim>\<open>strings.ContainsAny(s, chars)\<close>, for \<open>chars\<close> of ASCII characters (the file passes
  \<^verbatim>\<open>"-."\<close>): some byte of \<open>s\<close> is one of them.
\<close>

definition ContainsAny :: "string \<Rightarrow> string \<Rightarrow> bool" where
  "ContainsAny s chars = list_ex (\<lambda>c. c \<in> set chars) s"

text \<open>
  \<^verbatim>\<open>strings.TrimSpace\<close>: the string without its leading and trailing white space, as
  Unicode defines it (\<^verbatim>\<open>unicode.IsSpace\<close>). \<open>spaceRunes\<close> lists the UTF-8 encodings of the
  white-space code points: U+0009 to U+000D, U+0020, U+0085, U+00A0, U+1680, U+2000 to
  U+200A, U+2028, U+2029, U+202F, U+205F and U+3000. \<open>stripRunes es s\<close> removes from the
  front of \<open>s\<close> every leading occurrence of a member of \<open>es\<close>.
\<close>

definition spaceRunes :: "string list" where
  "spaceRunes =
     [[CHR 0x09], [CHR 0x0A], [CHR 0x0B], [CHR 0x0C], [CHR 0x0D], [CHR 0x20],
      [CHR 0xC2, CHR 0x85], [CHR 0xC2, CHR 0xA0], [CHR 0xE1, CHR 0x9A, CHR 0x80],
      [CHR 0xE2, CHR 0x80, CHR 0x80], [CHR 0xE2, CHR 0x80, CHR 0x81],
      [CHR 0xE2, CHR 0x80, CHR 0x82], [CHR 0xE2, CHR 0x80, CHR 0x83],
      [CHR 0xE2, CHR 0x80, CHR 0x84], [CHR 0xE2, CHR 0x80, CHR 0x85],
      [CHR 0xE2, CHR 0x80, CHR 0x86], [CHR 0xE2, CHR 0x80, CHR 0x87],
      [CHR 0xE2, CHR 0x80, CHR 0x88], [CHR 0xE2, CHR 0x80, CHR 0x89],
      [CHR 0xE2, CHR 0x80, CHR 0x8A], [CHR 0xE2, CHR 0x80, CHR 0xA8],
      [CHR 0xE2, CHR 0x80, CHR 0xA9], [CHR 0xE2, CHR 0x80, CHR 0xAF],
      [CHR 0xE2, CHR 0x81, CHR 0x9F], [CHR 0xE3, CHR 0x80, CHR 0x80]]"

fun stripRunes :: "string list \<Rightarrow> string \<Rightarrow> string" where
  "stripRunes es [] = []"
| "stripRunes es (c # cs) =
     (case find (\<lambda>e. e \<noteq> [] \<and> take (length e) (c # cs) = e) es of
        None \<Rightarrow> c # cs
      | Some e \<Rightarrow> stripRunes es (drop (length e - 1) cs))"

definition TrimSpace :: "string \<Rightarrow> string" where
  "TrimSpace s = rev (stripRunes (map rev spaceRunes) (rev (stripRunes spaceRunes s)))"

subsection \<open>Address format validation\<close>

text \<open>
  \<^verbatim>\<open>infinibandValidMAC\<close> (lines 123 to 132) and \<^verbatim>\<open>infinibandValidGUID\<close> (lines 159 to
  168). The result is the Go \<^verbatim>\<open>error\<close>: \<open>None\<close> is \<^verbatim>\<open>nil\<close>.
\<close>

definition infinibandValidMAC :: "string \<Rightarrow> error option" where
  "infinibandValidMAC value =
     (let err = ParseMAC value in
      if isl err \<or> (length value \<noteq> 23 \<and> length value \<noteq> 59) \<or> ContainsAny value ''-.''
      then Some ErrInvalidMAC
      else None)"

definition infinibandValidGUID :: "string \<Rightarrow> error option" where
  "infinibandValidGUID value =
     (let err = ParseMAC value in
      if isl err \<or> length value \<noteq> 23 \<or> ContainsAny value ''-.''
      then Some ErrInvalidGUID
      else None)"

subsection \<open>The world outside the file\<close>

text \<open>
  The operating system and the collaborators, over a world \<open>'w\<close> that nothing is assumed
  about. Each takes the arguments of the Go function and the world, and returns the Go
  function's result and the world it leaves:
  \<^item> \<open>ReadFile path\<close>: \<^verbatim>\<open>os.ReadFile(path)\<close>, the content as a string;
  \<^item> \<open>LinkSetNodeGUID name guid vf\<close>: \<^verbatim>\<open>(&ip.Link{Name: name}).SetNodeGUID(guid, vf)\<close>,
    and \<open>LinkSetPortGUID\<close> likewise;
  \<^item> \<open>NetworkGetDevMAC dev\<close> and \<open>NetworkSetDevMAC dev mac\<close>;
  \<^item> \<open>unixDeviceSetup devicesPath prefix deviceName device flag\<close>:
    \<^verbatim>\<open>unixDeviceSetup(s, devicesPath, prefix, deviceName, device, flag, runConf)\<close>, where
    the file always passes \<^verbatim>\<open>false\<close> for the flag.
    The daemon state \<^verbatim>\<open>s\<close> and the run configuration \<^verbatim>\<open>runConf\<close> are pointers to
    objects that only the collaborator reads and writes: they are part of the world. The
    device is a Go map literal, written as its list of pairs.
  An \<^verbatim>\<open>int\<close> of Go is 64 bits wide on the platforms the daemon runs on; the file does no
  arithmetic on one, and a VF index is a HOL \<open>int\<close>.
\<close>

record 'w externals =
  ReadFile :: "string \<Rightarrow> 'w \<Rightarrow> (error + string) \<times> 'w"
  LinkSetNodeGUID :: "string \<Rightarrow> byte list \<Rightarrow> int \<Rightarrow> 'w \<Rightarrow> error option \<times> 'w"
  LinkSetPortGUID :: "string \<Rightarrow> byte list \<Rightarrow> int \<Rightarrow> 'w \<Rightarrow> error option \<times> 'w"
  NetworkGetDevMAC :: "string \<Rightarrow> 'w \<Rightarrow> (error + string) \<times> 'w"
  NetworkSetDevMAC :: "string \<Rightarrow> string \<Rightarrow> 'w \<Rightarrow> error option \<times> 'w"
  unixDeviceSetup ::
    "string \<Rightarrow> string \<Rightarrow> string \<Rightarrow> (string \<times> string) list \<Rightarrow> bool \<Rightarrow> 'w \<Rightarrow> error option \<times> 'w"

text \<open>
  What the file asked of the outside, in order: the state of a run is the world together
  with the list of the calls made so far. A hardware write is a \<open>CallLinkSetNodeGUID\<close>
  or a \<open>CallLinkSetPortGUID\<close>.
\<close>

datatype call =
    CallReadFile string
  | CallLinkSetNodeGUID string "byte list" int
  | CallLinkSetPortGUID string "byte list" int
  | CallNetworkGetDevMAC string
  | CallNetworkSetDevMAC string string
  | CallUnixDeviceSetup string string string "(string \<times> string) list" bool

type_synonym 'w sys = "'w \<times> call list"

definition do_ReadFile :: "'w externals \<Rightarrow> string \<Rightarrow> 'w sys \<Rightarrow> (error + string) \<times> 'w sys" where
  "do_ReadFile X path s =
     (case ReadFile X path (fst s) of (r, w) \<Rightarrow> (r, (w, snd s @ [CallReadFile path])))"

definition do_LinkSetNodeGUID ::
  "'w externals \<Rightarrow> string \<Rightarrow> byte list \<Rightarrow> int \<Rightarrow> 'w sys \<Rightarrow> error option \<times> 'w sys" where
  "do_LinkSetNodeGUID X name guid vf s =
     (case LinkSetNodeGUID X name guid vf (fst s) of
        (r, w) \<Rightarrow> (r, (w, snd s @ [CallLinkSetNodeGUID name guid vf])))"

definition do_LinkSetPortGUID ::
  "'w externals \<Rightarrow> string \<Rightarrow> byte list \<Rightarrow> int \<Rightarrow> 'w sys \<Rightarrow> error option \<times> 'w sys" where
  "do_LinkSetPortGUID X name guid vf s =
     (case LinkSetPortGUID X name guid vf (fst s) of
        (r, w) \<Rightarrow> (r, (w, snd s @ [CallLinkSetPortGUID name guid vf])))"

definition do_NetworkGetDevMAC ::
  "'w externals \<Rightarrow> string \<Rightarrow> 'w sys \<Rightarrow> (error + string) \<times> 'w sys" where
  "do_NetworkGetDevMAC X dev s =
     (case NetworkGetDevMAC X dev (fst s) of
        (r, w) \<Rightarrow> (r, (w, snd s @ [CallNetworkGetDevMAC dev])))"

definition do_NetworkSetDevMAC ::
  "'w externals \<Rightarrow> string \<Rightarrow> string \<Rightarrow> 'w sys \<Rightarrow> error option \<times> 'w sys" where
  "do_NetworkSetDevMAC X dev mac s =
     (case NetworkSetDevMAC X dev mac (fst s) of
        (r, w) \<Rightarrow> (r, (w, snd s @ [CallNetworkSetDevMAC dev mac])))"

definition do_unixDeviceSetup ::
  "'w externals \<Rightarrow> string \<Rightarrow> string \<Rightarrow> string \<Rightarrow> (string \<times> string) list \<Rightarrow> bool \<Rightarrow> 'w sys
     \<Rightarrow> error option \<times> 'w sys" where
  "do_unixDeviceSetup X devicesPath prefix deviceName device flag s =
     (case unixDeviceSetup X devicesPath prefix deviceName device flag (fst s) of
        (r, w) \<Rightarrow>
          (r, (w, snd s @ [CallUnixDeviceSetup devicesPath prefix deviceName device flag])))"

subsection \<open>The network inventory\<close>

text \<open>
  Modelled from the spec: the types \<^verbatim>\<open>api.ResourcesNetwork\<close>,
  \<^verbatim>\<open>api.ResourcesNetworkCard\<close>, \<^verbatim>\<open>api.ResourcesNetworkCardSRIOV\<close>,
  \<^verbatim>\<open>api.ResourcesNetworkCardPort\<close> and \<^verbatim>\<open>api.ResourcesNetworkCardPortInfiniband\<close> of
  \<^verbatim>\<open>shared/api\<close>, with the fields the file reads. An inventory is a collection of cards,
  each with its ports and an optional SR-IOV descriptor that lists its virtual functions; a
  virtual function has ports of the same shape. A port has an identifier, a physical port
  number, a protocol tag and an optional InfiniBand payload of three interface names. A
  \<^verbatim>\<open>nil\<close> pointer is \<open>None\<close>.
\<close>

record ResourcesNetworkCardPortInfiniband =
  IsSMName :: string
  MADName :: string
  VerbName :: string

record ResourcesNetworkCardPort =
  ID :: string
  Port :: "64 word"
  Protocol :: string
  Infiniband :: "ResourcesNetworkCardPortInfiniband option"

datatype ResourcesNetworkCard =
  ResourcesNetworkCard (Ports: "ResourcesNetworkCardPort list") (SRIOV: "ResourcesNetworkCardSRIOV option")
and ResourcesNetworkCardSRIOV =
  ResourcesNetworkCardSRIOV (VFs: "ResourcesNetworkCard list")

datatype ResourcesNetwork =
  ResourcesNetwork (Cards: "ResourcesNetworkCard list")

subsection \<open>The port and VF matcher\<close>

text \<open>
  \<^verbatim>\<open>infinibandDevices\<close> (lines 23 to 73). The result maps a port identifier to a pointer
  to the loop variable \<^verbatim>\<open>port\<close>, which each iteration declares anew (Go 1.22 and later): to
  a copy of the port. The three loops are folds over the map built so far:
  \<^item> \<open>pfStep\<close> is the body of the loop over \<^verbatim>\<open>card.Ports\<close> (lines 27 to 38);
  \<^item> \<open>vfStep\<close> is the body of the loop over \<^verbatim>\<open>VF.Ports\<close> (lines 51 to 67), with
    \<open>parentDev\<close> the result of the lookup of line 47, \<open>parentIsPF\<close> being
    \<open>parentDev \<noteq> None\<close>;
  \<^item> \<open>cardStep\<close> is the body of the loop over \<^verbatim>\<open>nics.Cards\<close> (lines 26 to 69), on
    the card \<open>crd\<close>.
\<close>

type_synonym ibDevs = "string \<rightharpoonup> ResourcesNetworkCardPort"

definition pfStep :: "string \<Rightarrow> ibDevs \<Rightarrow> ResourcesNetworkCardPort \<Rightarrow> ibDevs" where
  "pfStep parent ibDevs port =
     (if Protocol port \<noteq> ''infiniband'' then ibDevs
      else if ID port \<noteq> parent then ibDevs
      else ibDevs(ID port \<mapsto> port))"

definition vfStep ::
  "string \<Rightarrow> ResourcesNetworkCardPort option \<Rightarrow> ibDevs \<Rightarrow> ResourcesNetworkCardPort \<Rightarrow> ibDevs" where
  "vfStep parent parentDev ibDevs port =
     (if Protocol port \<noteq> ''infiniband'' then ibDevs
      else if (case parentDev of None \<Rightarrow> False | Some pf \<Rightarrow> Port pf \<noteq> Port port) then ibDevs
      else if parentDev = None \<and> ID port \<noteq> parent then ibDevs
      else ibDevs(ID port \<mapsto> port))"

definition cardStep :: "string \<Rightarrow> ibDevs \<Rightarrow> ResourcesNetworkCard \<Rightarrow> ibDevs" where
  "cardStep parent ibDevs crd =
     (let ibDevs1 = foldl (pfStep parent) ibDevs (Ports crd) in
      case SRIOV crd of
        None \<Rightarrow> ibDevs1
      | Some sriov \<Rightarrow>
          (let parentDev = ibDevs1 parent in
           foldl (\<lambda>m VF. foldl (vfStep parent parentDev) m (Ports VF)) ibDevs1 (VFs sriov)))"

definition infinibandDevices :: "ResourcesNetwork \<Rightarrow> string \<Rightarrow> ibDevs" where
  "infinibandDevices nics parent = foldl (cardStep parent) Map.empty (Cards nics)"

subsection \<open>The device node provisioner\<close>

text \<open>
  \<^verbatim>\<open>infinibandAddDevices\<close> (lines 77 to 119). Its three blocks (lines 83 to 92, 95 to
  104 and 107 to 116) differ in the interface name only; \<open>addDevice\<close> is one block, and
  returns the error that makes the function return.
\<close>

definition IBDevPrefix :: string where
  "IBDevPrefix = ''infiniband.unix''"

definition addDevice ::
  "'w externals \<Rightarrow> string \<Rightarrow> string \<Rightarrow> string \<Rightarrow> 'w sys \<Rightarrow> error option \<times> 'w sys" where
  "addDevice X devicesPath deviceName name s =
     (if name \<noteq> [] then
        do_unixDeviceSetup X devicesPath IBDevPrefix deviceName
          [(''source'', ''/dev/infiniband/'' @ name)] False s
      else (None, s))"

definition infinibandAddDevices ::
  "'w externals \<Rightarrow> string \<Rightarrow> string \<Rightarrow> ResourcesNetworkCardPort \<Rightarrow> 'w sys \<Rightarrow> error option \<times> 'w sys" where
  "infinibandAddDevices X devicesPath deviceName ibDev s =
     (case Infiniband ibDev of
        None \<Rightarrow> (Some ErrNoInfinibandDevices, s)
      | Some ib \<Rightarrow>
          (case addDevice X devicesPath deviceName (IsSMName ib) s of
             (Some err, s1) \<Rightarrow> (Some err, s1)
           | (None, s1) \<Rightarrow>
               (case addDevice X devicesPath deviceName (MADName ib) s1 of
                  (Some err, s2) \<Rightarrow> (Some err, s2)
                | (None, s2) \<Rightarrow>
                    (case addDevice X devicesPath deviceName (VerbName ib) s2 of
                       (Some err, s3) \<Rightarrow> (Some err, s3)
                     | (None, s3) \<Rightarrow> (None, s3)))))"

subsection \<open>The hardware address setter\<close>

text \<open>
  \<^verbatim>\<open>infinibandSetDevMAC\<close> (lines 138 to 155). The arguments of the call of line 151 are
  evaluated before the call: when the slice \<^verbatim>\<open>curHwaddr[:36]\<close> panics,
  \<^verbatim>\<open>NetworkSetDevMAC\<close> is not called. The result is the panic, or the returned error.
\<close>

definition infinibandSetDevMAC ::
  "'w externals \<Rightarrow> string \<Rightarrow> string \<Rightarrow> 'w sys \<Rightarrow> (panic + error option) \<times> 'w sys" where
  "infinibandSetDevMAC X ibDev hwaddr s =
     (if length hwaddr = 59 then
        (case do_NetworkSetDevMAC X ibDev hwaddr s of (r, s1) \<Rightarrow> (Inr r, s1))
      else if length hwaddr = 23 then
        (case do_NetworkGetDevMAC X ibDev s of
           (Inl err, s1) \<Rightarrow> (Inr (Some err), s1)
         | (Inr curHwaddr, s1) \<Rightarrow>
             (case slice_to curHwaddr 36 of
                Inl p \<Rightarrow> (Inl p, s1)
              | Inr pre \<Rightarrow>
                  (case do_NetworkSetDevMAC X ibDev (pre @ hwaddr) s1 of
                     (r, s2) \<Rightarrow> (Inr r, s2))))
      else (Inr (Some ErrInvalidLength), s))"

subsection \<open>The GUID accessors\<close>

text \<open>
  \<^verbatim>\<open>infinibandGetVFNodeGUID\<close> (lines 221 to 229), \<^verbatim>\<open>infinibandSetVFNodeGUID\<close> (lines
  232 to 253), \<^verbatim>\<open>infinibandGetVFPortGUID\<close> (lines 256 to 263) and
  \<^verbatim>\<open>infinibandSetVFPortGUID\<close> (lines 266 to 287).
\<close>

definition infinibandGetVFNodeGUID ::
  "'w externals \<Rightarrow> string \<Rightarrow> int \<Rightarrow> 'w sys \<Rightarrow> (error + string) \<times> 'w sys" where
  "infinibandGetVFNodeGUID X ibDev vfID s =
     (case do_ReadFile X
             (''/sys/class/infiniband/'' @ ibDev @ ''/device/sriov/'' @ Sprintf_d vfID @ ''/node'') s of
        (Inl err, s1) \<Rightarrow> (Inl err, s1)
      | (Inr content, s1) \<Rightarrow> (Inr (TrimSpace content), s1))"

definition infinibandSetVFNodeGUID ::
  "'w externals \<Rightarrow> string \<Rightarrow> int \<Rightarrow> string \<Rightarrow> 'w sys \<Rightarrow> error option \<times> 'w sys" where
  "infinibandSetVFNodeGUID X ibDev vfID nodeGUID s =
     (case infinibandGetVFNodeGUID X ibDev vfID s of
        (Inl err, s1) \<Rightarrow> (Some err, s1)
      | (Inr curGUID, s1) \<Rightarrow>
          (if curGUID \<noteq> nodeGUID then
             (case ParseMAC nodeGUID of
                Inl err \<Rightarrow> (Some (ErrParseNodeGUID nodeGUID err), s1)
              | Inr guid \<Rightarrow>
                  (case do_LinkSetNodeGUID X ibDev guid vfID s1 of
                     (Some err, s2) \<Rightarrow> (Some err, s2)
                   | (None, s2) \<Rightarrow> (None, s2)))
           else (None, s1)))"

definition infinibandGetVFPortGUID ::
  "'w externals \<Rightarrow> string \<Rightarrow> int \<Rightarrow> 'w sys \<Rightarrow> (error + string) \<times> 'w sys" where
  "infinibandGetVFPortGUID X ibDev vfID s =
     (case do_ReadFile X
             (''/sys/class/infiniband/'' @ ibDev @ ''/device/sriov/'' @ Sprintf_d vfID @ ''/port'') s of
        (Inl err, s1) \<Rightarrow> (Inl err, s1)
      | (Inr content, s1) \<Rightarrow> (Inr (TrimSpace content), s1))"

definition infinibandSetVFPortGUID ::
  "'w externals \<Rightarrow> string \<Rightarrow> int \<Rightarrow> string \<Rightarrow> 'w sys \<Rightarrow> error option \<times> 'w sys" where
  "infinibandSetVFPortGUID X ibDev vfID portGUID s =
     (case infinibandGetVFPortGUID X ibDev vfID s of
        (Inl err, s1) \<Rightarrow> (Some err, s1)
      | (Inr curGUID, s1) \<Rightarrow>
          (if curGUID \<noteq> portGUID then
             (case ParseMAC portGUID of
                Inl err \<Rightarrow> (Some (ErrParsePortGUID portGUID err), s1)
              | Inr guid \<Rightarrow>
                  (case do_LinkSetPortGUID X ibDev guid vfID s1 of
                     (Some err, s2) \<Rightarrow> (Some err, s2)
                   | (None, s2) \<Rightarrow> (None, s2)))
           else (None, s1)))"

subsection \<open>The lifecycle state recorder\<close>

text \<open>
  The store \<^verbatim>\<open>volatile\<close> is a Go \<^verbatim>\<open>map[string]string\<close>: reading a key that is missing
  gives the empty string (\<open>lookup\<close>), and a write is seen by the caller, also when the
  function returns an error. \<^verbatim>\<open>infinibandSnapshotGUIDs\<close> (lines 171 to 189) returns the
  error and the store it leaves; \<^verbatim>\<open>infinibandRestoreGUIDs\<close> (lines 192 to 218) only reads
  the store.
\<close>

type_synonym volatile = "string \<rightharpoonup> string"

definition lookup :: "volatile \<Rightarrow> string \<Rightarrow> string" where
  "lookup m k = (case m k of None \<Rightarrow> [] | Some v \<Rightarrow> v)"

definition infinibandSnapshotGUIDs ::
  "'w externals \<Rightarrow> string \<Rightarrow> int \<Rightarrow> volatile \<Rightarrow> 'w sys \<Rightarrow> error option \<times> volatile \<times> 'w sys" where
  "infinibandSnapshotGUIDs X hostName vfID volatile s =
     (let volatile1 = volatile(''last_state.vf.id'' \<mapsto> Sprintf_d vfID) in
      case infinibandGetVFNodeGUID X hostName vfID s of
        (Inl err, s1) \<Rightarrow> (Some err, volatile1, s1)
      | (Inr nodeGUID, s1) \<Rightarrow>
          (case infinibandGetVFPortGUID X hostName vfID s1 of
             (Inl err, s2) \<Rightarrow> (Some err, volatile1, s2)
           | (Inr portGUID, s2) \<Rightarrow>
               (None,
                volatile1(''last_state.vf.node_guid'' \<mapsto> nodeGUID,
                          ''last_state.vf.port_guid'' \<mapsto> portGUID),
                s2)))"

definition infinibandRestoreGUIDs ::
  "'w externals \<Rightarrow> string \<Rightarrow> volatile \<Rightarrow> 'w sys \<Rightarrow> error option \<times> 'w sys" where
  "infinibandRestoreGUIDs X hostName volatile s =
     (if lookup volatile ''last_state.vf.id'' \<noteq> [] then
        (case ParseUint_10_32 (lookup volatile ''last_state.vf.id'') of
           Inl err \<Rightarrow>
             (Some (ErrConvertVFID hostName (lookup volatile ''last_state.vf.id'') err), s)
         | Inr vfID \<Rightarrow>
             (case (if lookup volatile ''last_state.vf.node_guid'' \<noteq> [] then
                      (case infinibandSetVFNodeGUID X hostName (int vfID)
                              (lookup volatile ''last_state.vf.node_guid'') s of
                         (Some err, s1) \<Rightarrow>
                           (Some (ErrRestoreNodeGUID hostName (int vfID)
                                    (lookup volatile ''last_state.vf.node_guid'') err), s1)
                       | (None, s1) \<Rightarrow> (None, s1))
                    else (None, s)) of
                (Some err, s1) \<Rightarrow> (Some err, s1)
              | (None, s1) \<Rightarrow>
                  (if lookup volatile ''last_state.vf.port_guid'' \<noteq> [] then
                     (case infinibandSetVFPortGUID X hostName (int vfID)
                             (lookup volatile ''last_state.vf.port_guid'') s1 of
                        (Some err, s2) \<Rightarrow>
                          (Some (ErrRestorePortGUID hostName (int vfID)
                                   (lookup volatile ''last_state.vf.port_guid'') err), s2)
                      | (None, s2) \<Rightarrow> (None, s2))
                   else (None, s1))))
      else (None, s))"

section \<open>Notions of the specification\<close>

text \<open>
  A colon-hex string of \<open>k\<close> bytes: \<open>k\<close> pairs of hexadecimal digits separated by colons
  (23 characters for 8 bytes, 59 for 20).
\<close>

definition isHexDigit :: "char \<Rightarrow> bool" where
  "isHexDigit c =
     (let k = (of_char c :: nat) in
      (48 \<le> k \<and> k \<le> 57) \<or> (97 \<le> k \<and> k \<le> 102) \<or> (65 \<le> k \<and> k \<le> 70))"

fun colonHex :: "nat \<Rightarrow> string \<Rightarrow> bool" where
  "colonHex 0 s = False"
| "colonHex (Suc 0) s = (case s of [a, b] \<Rightarrow> isHexDigit a \<and> isHexDigit b | _ \<Rightarrow> False)"
| "colonHex (Suc (Suc k)) s =
     (case s of
        a # b # c # rest \<Rightarrow> isHexDigit a \<and> isHexDigit b \<and> c = CHR '':'' \<and> colonHex (Suc k) rest
      | _ \<Rightarrow> False)"

text \<open>The hardware writes among the calls made: the link-control writes of a GUID.\<close>

fun isHardwareWrite :: "call \<Rightarrow> bool" where
  "isHardwareWrite (CallLinkSetNodeGUID name guid vf) = True"
| "isHardwareWrite (CallLinkSetPortGUID name guid vf) = True"
| "isHardwareWrite c = False"

definition hardwareWrites :: "call list \<Rightarrow> nat" where
  "hardwareWrites cs = length (filter isHardwareWrite cs)"

text \<open>The files of a virtual function that the GUID accessors read.\<close>

definition sriovFile :: "string \<Rightarrow> int \<Rightarrow> string \<Rightarrow> string" where
  "sriovFile ibDev vfID leaf =
     ''/sys/class/infiniband/'' @ ibDev @ ''/device/sriov/'' @ Sprintf_d vfID @ ''/'' @ leaf"

text \<open>
  Two calls of \<^verbatim>\<open>infinibandSetVFNodeGUID\<close> in a row with the same arguments: the two
  results and the final state.
\<close>

definition setNodeGUIDTwice ::
  "'w externals \<Rightarrow> string \<Rightarrow> int \<Rightarrow> string \<Rightarrow> 'w sys \<Rightarrow> error option \<times> error option \<times> 'w sys" where
  "setNodeGUIDTwice X ibDev vfID nodeGUID s =
     (case infinibandSetVFNodeGUID X ibDev vfID nodeGUID s of
        (r1, s1) \<Rightarrow>
          (case infinibandSetVFNodeGUID X ibDev vfID nodeGUID s1 of
             (r2, s2) \<Rightarrow> (r1, r2, s2)))"

text \<open>
  The device-setup call that the provisioner issues for an interface name, and the
  provisioning of a list of names in order, which stops at the first error.
\<close>

definition setupCall :: "string \<Rightarrow> string \<Rightarrow> string \<Rightarrow> call" where
  "setupCall devicesPath deviceName name =
     CallUnixDeviceSetup devicesPath IBDevPrefix deviceName
       [(''source'', ''/dev/infiniband/'' @ name)] False"

fun setupEach ::
  "'w externals \<Rightarrow> string \<Rightarrow> string \<Rightarrow> string list \<Rightarrow> 'w sys \<Rightarrow> error option \<times> 'w sys" where
  "setupEach X devicesPath deviceName [] s = (None, s)"
| "setupEach X devicesPath deviceName (name # names) s =
     (case do_unixDeviceSetup X devicesPath IBDevPrefix deviceName
             [(''source'', ''/dev/infiniband/'' @ name)] False s of
        (Some err, s1) \<Rightarrow> (Some err, s1)
      | (None, s1) \<Rightarrow> setupEach X devicesPath deviceName names s1)"

section \<open>A simulated host\<close>

text \<open>
  A concrete world on which the theorems are exercised: the files of sysfs with their
  content, the hardware address of each network device, and the device sources whose setup
  fails. A read of a file that does not exist fails; a GUID written through link control is
  what the file of the virtual function shows afterwards, in lower-case colon-separated hex
  followed by a newline.
\<close>

record host =
  sysfs :: "(string \<times> string) list"
  hwaddrs :: "(string \<times> string) list"
  failing :: "string list"

definition hexByte :: "byte \<Rightarrow> string" where
  "hexByte b = [''0123456789abcdef'' ! (unat b div 16), ''0123456789abcdef'' ! (unat b mod 16)]"

fun showGUID :: "byte list \<Rightarrow> string" where
  "showGUID [] = []"
| "showGUID [b] = hexByte b"
| "showGUID (b # bs) = hexByte b @ CHR '':'' # showGUID bs"

definition simHost :: "host externals" where
  "simHost =
     \<lparr>ReadFile = (\<lambda>path w.
        (case map_of (sysfs w) path of
           None \<Rightarrow> Inl (ExternalError ''no such file or directory'')
         | Some content \<Rightarrow> Inr content, w)),
      LinkSetNodeGUID = (\<lambda>name guid vf w.
        (None, w\<lparr>sysfs := (sriovFile name vf ''node'', showGUID guid @ [CHR 0x0A]) # sysfs w\<rparr>)),
      LinkSetPortGUID = (\<lambda>name guid vf w.
        (None, w\<lparr>sysfs := (sriovFile name vf ''port'', showGUID guid @ [CHR 0x0A]) # sysfs w\<rparr>)),
      NetworkGetDevMAC = (\<lambda>dev w.
        (case map_of (hwaddrs w) dev of
           None \<Rightarrow> Inl (ExternalError ''no such device'')
         | Some mac \<Rightarrow> Inr mac, w)),
      NetworkSetDevMAC = (\<lambda>dev mac w. (None, w\<lparr>hwaddrs := (dev, mac) # hwaddrs w\<rparr>)),
      unixDeviceSetup = (\<lambda>devicesPath prefix deviceName device flag w.
        (case map_of device ''source'' of
           None \<Rightarrow> Some (ExternalError ''no source'')
         | Some src \<Rightarrow>
             if src \<in> set (failing w) then Some (ExternalError ''device setup failed'') else None,
         w))\<rparr>"

section \<open>An inventory of two cards\<close>

text \<open>
  Card X has the physical function \<open>p1\<close> on physical port 1 and two virtual functions,
  \<open>v1\<close> on port 1 and \<open>v2\<close> on port 2. Card Y has the physical function \<open>q1\<close> and one
  virtual function, \<open>w1\<close>, on port 2. Every port is an InfiniBand port.
\<close>

definition ibPort :: "string \<Rightarrow> 64 word \<Rightarrow> ResourcesNetworkCardPort" where
  "ibPort name number =
     \<lparr>ID = name, Port = number, Protocol = ''infiniband'', Infiniband = None\<rparr>"

definition cardX :: ResourcesNetworkCard where
  "cardX =
     ResourcesNetworkCard [ibPort ''p1'' 1]
       (Some (ResourcesNetworkCardSRIOV
          [ResourcesNetworkCard [ibPort ''v1'' 1] None,
           ResourcesNetworkCard [ibPort ''v2'' 2] None]))"

definition cardY :: ResourcesNetworkCard where
  "cardY =
     ResourcesNetworkCard [ibPort ''q1'' 2]
       (Some (ResourcesNetworkCardSRIOV [ResourcesNetworkCard [ibPort ''w1'' 2] None]))"

section \<open>Properties\<close>

subsection \<open>The address format validators\<close>

text \<open>
  \<^verbatim>\<open>net.ParseMAC\<close> accepts a string of \<open>3 * k - 1\<close> characters without \<open>-\<close> and \<open>.\<close>,
  for \<open>k\<close> one of 6, 8 and 20, exactly when it is a colon-hex string of \<open>k\<close> bytes
  (\<open>ParseMAC_colonHex\<close>).
\<close>

lemma hexval_isHexDigit: "(hexval c \<noteq> None) = isHexDigit c"
  by (auto simp: hexval_def isHexDigit_def Let_def)

lemma hexval_less: "hexval c = Some d \<Longrightarrow> d < 16"
  by (auto simp: hexval_def Let_def split: if_splits)

lemma xtoi_pair:
  "(\<exists>n. xtoi [a, b] = (n, 2, True)) = (isHexDigit a \<and> isHexDigit b)"
proof (cases "hexval a")
  case None
  then show ?thesis
    using hexval_isHexDigit [of a] by (simp add: xtoi_def)
next
  case (Some d)
  note a = this
  have d: "d < 16" using a by (rule hexval_less)
  show ?thesis
  proof (cases "hexval b")
    case None
    then show ?thesis
      using a hexval_isHexDigit [of b] d by (simp add: xtoi_def big_def)
  next
    case (Some d')
    have "d' < 16" using Some by (rule hexval_less)
    then show ?thesis
      using a Some d hexval_isHexDigit [of b] hexval_isHexDigit [of a]
      by (simp add: xtoi_def big_def)
  qed
qed

lemma xtoi2_pair: "(xtoi2 [a, b] e \<noteq> None) = (isHexDigit a \<and> isHexDigit b)"
  using xtoi_pair [of a b] by (auto simp: xtoi2_def split: prod.splits)

lemma xtoi2_more:
  "(xtoi2 (a # b # c # rest) e \<noteq> None) = (isHexDigit a \<and> isHexDigit b \<and> c = e)"
  using xtoi_pair [of a b] by (auto simp: xtoi2_def split: prod.splits)


lemma isHexDigit_not_delim: "isHexDigit c \<Longrightarrow> c \<noteq> CHR ''-'' \<and> c \<noteq> CHR ''.'' \<and> c \<noteq> CHR '':''"
  by (auto simp: isHexDigit_def)

lemma colonHex_length: "colonHex k s \<Longrightarrow> Suc (length s) = 3 * k"
  by (induction k s rule: colonHex.induct) (auto split: list.splits)

lemma colonHex_no_delim: "colonHex k s \<Longrightarrow> \<not> ContainsAny s ''-.''"
  by (induction k s rule: colonHex.induct)
     (auto simp: ContainsAny_def split: list.splits dest: isHexDigit_not_delim)

lemma colonGroups_Suc:
  "(colonGroups e (Suc k) s = None) = (xtoi2 s e = None \<or> colonGroups e k (drop 3 s) = None)"
  by (simp split: option.splits)

lemma colonHex_colonGroups: "colonHex k s \<Longrightarrow> colonGroups (CHR '':'') k s \<noteq> None"
proof (induction k s rule: colonHex.induct)
  case (1 s)
  then show ?case by simp
next
  case (2 s)
  then obtain a b where s: "s = [a, b]" and h: "isHexDigit a" "isHexDigit b"
    by (auto split: list.splits)
  from h have "xtoi2 [a, b] (CHR '':'') \<noteq> None"
    using xtoi2_pair [of a b] by blast
  then show ?case
    unfolding s colonGroups_Suc by simp
next
  case (3 k s)
  then obtain a b rest where s: "s = a # b # CHR '':'' # rest"
    and h: "isHexDigit a" "isHexDigit b" and r: "colonHex (Suc k) rest"
    by (auto split: list.splits)
  from h have "xtoi2 (a # b # CHR '':'' # rest) (CHR '':'') \<noteq> None"
    using xtoi2_more [of a b "CHR '':''" rest] by blast
  moreover have "colonGroups (CHR '':'') (Suc k) rest \<noteq> None"
    using "3.IH" s r by simp
  ultimately show ?case
    unfolding s colonGroups_Suc [of _ "Suc k"] by simp
qed

lemma colonGroups_colonHex:
  "colonGroups (CHR '':'') k s \<noteq> None \<Longrightarrow> Suc (length s) = 3 * k \<Longrightarrow> colonHex k s"
proof (induction k s rule: colonHex.induct)
  case (1 s)
  then show ?case by simp
next
  case (2 s)
  then obtain a b where s: "s = [a, b]"
    by (cases s) (auto simp: length_Suc_conv)
  from "2.prems"(1) have "xtoi2 [a, b] (CHR '':'') \<noteq> None"
    unfolding s colonGroups_Suc by simp
  then show ?case using s xtoi2_pair [of a b] by simp
next
  case (3 k s)
  from "3.prems"(2) obtain a b c rest where s: "s = a # b # c # rest"
    by (cases s; cases "tl s"; cases "tl (tl s)") auto
  from "3.prems"(1) have x: "xtoi2 (a # b # c # rest) (CHR '':'') \<noteq> None"
    and g: "colonGroups (CHR '':'') (Suc k) rest \<noteq> None"
    unfolding s colonGroups_Suc [of _ "Suc k"] by simp_all
  from x have h: "isHexDigit a" "isHexDigit b" "c = CHR '':''"
    using xtoi2_more [of a b c rest] by blast+
  from "3.prems"(2) s have "Suc (length rest) = 3 * Suc k" by simp
  with g have "colonHex (Suc k) rest" using "3.IH" s by simp
  then show ?case using s h by simp
qed

lemma ContainsAny_nth: "\<not> ContainsAny s cs \<Longrightarrow> i < length s \<Longrightarrow> s ! i \<notin> set cs"
  by (auto simp: ContainsAny_def list_ex_iff)

lemma colonHex_third: "colonHex (Suc (Suc k)) s \<Longrightarrow> s ! 2 = CHR '':''"
  by (auto split: list.splits)

lemma ParseMAC_colonHex:
  assumes "k = 6 \<or> k = 8 \<or> k = 20"
  shows "((\<exists>hw. ParseMAC s = Inr hw) \<and> Suc (length s) = 3 * k \<and> \<not> ContainsAny s ''-.'') = colonHex k s"
proof
  assume a: "(\<exists>hw. ParseMAC s = Inr hw) \<and> Suc (length s) = 3 * k \<and> \<not> ContainsAny s ''-.''"
  then have len: "Suc (length s) = 3 * k" and nc: "\<not> ContainsAny s ''-.''" by simp_all
  from len assms have l14: "\<not> length s < 14" "2 < length s" "4 < length s" by auto
  from nc l14 have n2: "s ! 2 \<noteq> CHR ''-''" and n4: "s ! 4 \<noteq> CHR ''.''"
    using ContainsAny_nth [of s "''-.''" 2] ContainsAny_nth [of s "''-.''" 4] by auto
  from len have d: "(length s + 1) div 3 = k" by simp
  from a obtain hw where "ParseMAC s = Inr hw" by blast
  then have "s ! 2 = CHR '':''" "colonGroups (CHR '':'') k s \<noteq> None"
    using l14 n2 n4 d by (auto simp: ParseMAC_def Let_def split: if_splits option.splits)
  then show "colonHex k s" using len by (simp add: colonGroups_colonHex)
next
  assume c: "colonHex k s"
  then have len: "Suc (length s) = 3 * k" by (rule colonHex_length)
  from assms obtain j where k: "k = Suc (Suc j)" by (auto simp: numeral_eq_Suc)
  from c have s2: "s ! 2 = CHR '':''" unfolding k by (rule colonHex_third)
  from c have g: "colonGroups (CHR '':'') k s \<noteq> None" by (rule colonHex_colonGroups)
  from len assms have l14: "\<not> length s < 14" by auto
  from len have d: "(length s + 1) div 3 = k" "(length s + 1) mod 3 = 0" by simp_all
  have "\<exists>hw. ParseMAC s = Inr hw"
    using l14 s2 g d assms by (auto simp: ParseMAC_def Let_def split: option.splits)
  then show "(\<exists>hw. ParseMAC s = Inr hw) \<and> Suc (length s) = 3 * k \<and> \<not> ContainsAny s ''-.''"
    using len c by (simp add: colonHex_no_delim)
qed



text \<open>
  C6: \<^verbatim>\<open>infinibandValidMAC\<close> succeeds if and only if the value parses as a MAC address,
  its length is 23 or 59 and it contains neither \<open>-\<close> nor \<open>.\<close>; otherwise it returns the
  validation error. The values it accepts are the colon-hex strings of 8 and of 20 bytes.
\<close>

theorem infinibandValidMAC_spec:
  "infinibandValidMAC value =
     (if (\<exists>hw. ParseMAC value = Inr hw) \<and> (length value = 23 \<or> length value = 59)
         \<and> \<not> ContainsAny value ''-.''
      then None else Some ErrInvalidMAC)
   \<and> ((infinibandValidMAC value = None) = (colonHex 8 value \<or> colonHex 20 value))"
proof -
  have isl: "isl (ParseMAC value) = (\<nexists>hw. ParseMAC value = Inr hw)"
    by (cases "ParseMAC value") simp_all
  have 1: "infinibandValidMAC value =
     (if (\<exists>hw. ParseMAC value = Inr hw) \<and> (length value = 23 \<or> length value = 59)
         \<and> \<not> ContainsAny value ''-.''
      then None else Some ErrInvalidMAC)"
    unfolding infinibandValidMAC_def Let_def isl by auto
  have 8: "colonHex 8 value =
      ((\<exists>hw. ParseMAC value = Inr hw) \<and> length value = 23 \<and> \<not> ContainsAny value ''-.'')"
    using ParseMAC_colonHex [of 8 "value"] by auto
  have 20: "colonHex 20 value =
      ((\<exists>hw. ParseMAC value = Inr hw) \<and> length value = 59 \<and> \<not> ContainsAny value ''-.'')"
    using ParseMAC_colonHex [of 20 "value"] by auto
  show ?thesis
    unfolding 8 20 using 1 by auto
qed

theorem infinibandValidMAC_spec_witness:
  "infinibandValidMAC ''a0:00:0f:c0:fe:80:00:00:00:00:00:00:4a:c8:f9:1b:aa:57:ef:19'' = None
   \<and> infinibandValidMAC ''4a:c8:f9:1b:aa:57:ef:19'' = None
   \<and> infinibandValidMAC ''4a-c8-f9-1b-aa-57-ef-19'' = Some ErrInvalidMAC
   \<and> infinibandValidMAC ''4a:c8:f9:1b:aa:57'' = Some ErrInvalidMAC"
proof -
  have long: "colonHex 20 ''a0:00:0f:c0:fe:80:00:00:00:00:00:00:4a:c8:f9:1b:aa:57:ef:19''"
    by (simp add: numeral_eq_Suc isHexDigit_def)
  have short: "colonHex 8 ''4a:c8:f9:1b:aa:57:ef:19''"
    by (simp add: numeral_eq_Suc isHexDigit_def)
  have dash: "ContainsAny ''4a-c8-f9-1b-aa-57-ef-19'' ''-.''"
    by (simp add: ContainsAny_def)
  have six: "length ''4a:c8:f9:1b:aa:57'' = 17"
    by simp
  have 1: "infinibandValidMAC ''a0:00:0f:c0:fe:80:00:00:00:00:00:00:4a:c8:f9:1b:aa:57:ef:19'' = None"
    using infinibandValidMAC_spec [of "''a0:00:0f:c0:fe:80:00:00:00:00:00:00:4a:c8:f9:1b:aa:57:ef:19''"]
      long by blast
  have 2: "infinibandValidMAC ''4a:c8:f9:1b:aa:57:ef:19'' = None"
    using infinibandValidMAC_spec [of "''4a:c8:f9:1b:aa:57:ef:19''"] short by blast
  have 3: "infinibandValidMAC ''4a-c8-f9-1b-aa-57-ef-19'' = Some ErrInvalidMAC"
    using infinibandValidMAC_spec [of "''4a-c8-f9-1b-aa-57-ef-19''", THEN conjunct1] dash by simp
  have 4: "infinibandValidMAC ''4a:c8:f9:1b:aa:57'' = Some ErrInvalidMAC"
    using infinibandValidMAC_spec [of "''4a:c8:f9:1b:aa:57''", THEN conjunct1] by simp
  show ?thesis
    using 1 2 3 4 by simp
qed

text \<open>
  C7: \<^verbatim>\<open>infinibandValidGUID\<close> succeeds if and only if the value parses as a MAC
  address, its length is 23 and it contains neither \<open>-\<close> nor \<open>.\<close>; otherwise it returns the
  validation error. A colon-hex string of 8 bytes (23 characters) passes both validators; a
  colon-hex string of 20 bytes (59 characters) passes \<^verbatim>\<open>infinibandValidMAC\<close> only.
\<close>

theorem infinibandValidGUID_spec:
  "infinibandValidGUID value =
     (if (\<exists>hw. ParseMAC value = Inr hw) \<and> length value = 23 \<and> \<not> ContainsAny value ''-.''
      then None else Some ErrInvalidGUID)
   \<and> (colonHex 8 value \<longrightarrow>
        length value = 23 \<and> infinibandValidGUID value = None \<and> infinibandValidMAC value = None)
   \<and> (colonHex 20 value \<longrightarrow>
        length value = 59 \<and> infinibandValidGUID value = Some ErrInvalidGUID
        \<and> infinibandValidMAC value = None)"
proof -
  have isl: "isl (ParseMAC value) = (\<nexists>hw. ParseMAC value = Inr hw)"
    by (cases "ParseMAC value") simp_all
  have guid: "infinibandValidGUID value =
     (if (\<exists>hw. ParseMAC value = Inr hw) \<and> length value = 23 \<and> \<not> ContainsAny value ''-.''
      then None else Some ErrInvalidGUID)"
    unfolding infinibandValidGUID_def Let_def isl by auto
  have mac: "infinibandValidMAC value =
     (if (\<exists>hw. ParseMAC value = Inr hw) \<and> (length value = 23 \<or> length value = 59)
         \<and> \<not> ContainsAny value ''-.''
      then None else Some ErrInvalidMAC)"
    unfolding infinibandValidMAC_def Let_def isl by auto
  have 8: "colonHex 8 value =
      ((\<exists>hw. ParseMAC value = Inr hw) \<and> length value = 23 \<and> \<not> ContainsAny value ''-.'')"
    using ParseMAC_colonHex [of 8 "value"] by auto
  have 20: "colonHex 20 value =
      ((\<exists>hw. ParseMAC value = Inr hw) \<and> length value = 59 \<and> \<not> ContainsAny value ''-.'')"
    using ParseMAC_colonHex [of 20 "value"] by auto
  show ?thesis
    unfolding 8 20 using guid mac by auto
qed

theorem infinibandValidGUID_spec_witness:
  "colonHex 8 ''4a:c8:f9:1b:aa:57:ef:19''
   \<and> infinibandValidGUID ''4a:c8:f9:1b:aa:57:ef:19'' = None
   \<and> infinibandValidMAC ''4a:c8:f9:1b:aa:57:ef:19'' = None
   \<and> colonHex 20 ''a0:00:0f:c0:fe:80:00:00:00:00:00:00:4a:c8:f9:1b:aa:57:ef:19''
   \<and> infinibandValidGUID ''a0:00:0f:c0:fe:80:00:00:00:00:00:00:4a:c8:f9:1b:aa:57:ef:19''
       = Some ErrInvalidGUID
   \<and> infinibandValidMAC ''a0:00:0f:c0:fe:80:00:00:00:00:00:00:4a:c8:f9:1b:aa:57:ef:19'' = None"
proof -
  have short: "colonHex 8 ''4a:c8:f9:1b:aa:57:ef:19''"
    by (simp add: numeral_eq_Suc isHexDigit_def)
  have long: "colonHex 20 ''a0:00:0f:c0:fe:80:00:00:00:00:00:00:4a:c8:f9:1b:aa:57:ef:19''"
    by (simp add: numeral_eq_Suc isHexDigit_def)
  show ?thesis
    using short long
      infinibandValidGUID_spec [of "''4a:c8:f9:1b:aa:57:ef:19''"]
      infinibandValidGUID_spec [of "''a0:00:0f:c0:fe:80:00:00:00:00:00:00:4a:c8:f9:1b:aa:57:ef:19''"]
    by blast
qed

subsection \<open>The lifecycle state recorder\<close>

text \<open>
  C8: when the key \<open>last_state.vf.id\<close> is absent from the store,
  \<^verbatim>\<open>infinibandRestoreGUIDs\<close> returns success and leaves the state as it was: it calls
  nothing, so it performs no hardware write.
\<close>

theorem Restore_without_snapshot:
  "volatile ''last_state.vf.id'' = None \<Longrightarrow>
     infinibandRestoreGUIDs X hostName volatile s = (None, s)
     \<and> hardwareWrites (snd (snd (infinibandRestoreGUIDs X hostName volatile s))) = hardwareWrites (snd s)"
  by (simp add: infinibandRestoreGUIDs_def lookup_def)

theorem Restore_without_snapshot_witness:
  "Map.empty ''last_state.vf.id'' = (None :: string option)
   \<and> infinibandRestoreGUIDs simHost ''mlx0'' Map.empty (\<lparr>sysfs = [], hwaddrs = [], failing = []\<rparr>, [])
       = (None, (\<lparr>sysfs = [], hwaddrs = [], failing = []\<rparr>, []))"
  using Restore_without_snapshot [of Map.empty simHost "''mlx0''" "(\<lparr>sysfs = [], hwaddrs = [], failing = []\<rparr>, [])"]
  by simp

text \<open>
  C5: \<^verbatim>\<open>infinibandSnapshotGUIDs\<close> writes the key \<open>last_state.vf.id\<close> before it reads a
  GUID. When it returns an error, the error is that of the node GUID read or of the port
  GUID read, the store holds the new VF index and is otherwise as before: the keys
  \<open>last_state.vf.node_guid\<close> and \<open>last_state.vf.port_guid\<close> are unchanged. When it returns
  success, both reads succeeded and the two GUID keys hold what was read.
\<close>

theorem Snapshot_spec:
  assumes "infinibandSnapshotGUIDs X hostName vfID volatile s = (r, volatile', s')"
  shows "volatile' ''last_state.vf.id'' = Some (Sprintf_d vfID)
    \<and> (\<forall>e. r = Some e \<longrightarrow>
         volatile' = volatile(''last_state.vf.id'' \<mapsto> Sprintf_d vfID)
         \<and> volatile' ''last_state.vf.node_guid'' = volatile ''last_state.vf.node_guid''
         \<and> volatile' ''last_state.vf.port_guid'' = volatile ''last_state.vf.port_guid''
         \<and> (infinibandGetVFNodeGUID X hostName vfID s = (Inl e, s')
              \<or> (\<exists>nodeGUID s1. infinibandGetVFNodeGUID X hostName vfID s = (Inr nodeGUID, s1)
                    \<and> infinibandGetVFPortGUID X hostName vfID s1 = (Inl e, s'))))
    \<and> (r = None \<longrightarrow>
         (\<exists>nodeGUID portGUID s1.
            infinibandGetVFNodeGUID X hostName vfID s = (Inr nodeGUID, s1)
            \<and> infinibandGetVFPortGUID X hostName vfID s1 = (Inr portGUID, s')
            \<and> volatile' = volatile(''last_state.vf.id'' \<mapsto> Sprintf_d vfID,
                                   ''last_state.vf.node_guid'' \<mapsto> nodeGUID,
                                   ''last_state.vf.port_guid'' \<mapsto> portGUID)))"
proof -
  obtain rn s1 where node: "infinibandGetVFNodeGUID X hostName vfID s = (rn, s1)"
    by (cases "infinibandGetVFNodeGUID X hostName vfID s") auto
  show ?thesis
  proof (cases rn)
    case (Inl e)
    then show ?thesis
      using assms node by (auto simp: infinibandSnapshotGUIDs_def)
  next
    case (Inr nodeGUID)
    note rn = this
    obtain rp s2 where port: "infinibandGetVFPortGUID X hostName vfID s1 = (rp, s2)"
      by (cases "infinibandGetVFPortGUID X hostName vfID s1") auto
    show ?thesis
      using assms node rn port by (cases rp) (auto simp: infinibandSnapshotGUIDs_def)
  qed
qed

theorem Snapshot_spec_witness:
  "infinibandSnapshotGUIDs simHost ''mlx0'' 3 [''last_state.vf.node_guid'' \<mapsto> ''old''] (\<lparr>sysfs = [], hwaddrs = [], failing = []\<rparr>, [])
     = (Some (ExternalError ''no such file or directory''),
        [''last_state.vf.node_guid'' \<mapsto> ''old'', ''last_state.vf.id'' \<mapsto> ''3''],
        (\<lparr>sysfs = [], hwaddrs = [], failing = []\<rparr>, [CallReadFile ''/sys/class/infiniband/mlx0/device/sriov/3/node'']))
   \<and> [''last_state.vf.node_guid'' \<mapsto> ''old'', ''last_state.vf.id'' \<mapsto> ''3''] ''last_state.vf.id'' = Some (Sprintf_d 3)
   \<and> [''last_state.vf.node_guid'' \<mapsto> ''old'', ''last_state.vf.id'' \<mapsto> ''3''] ''last_state.vf.node_guid''
       = [''last_state.vf.node_guid'' \<mapsto> ''old''] ''last_state.vf.node_guid''"
proof -
  have run: "infinibandSnapshotGUIDs simHost ''mlx0'' 3 [''last_state.vf.node_guid'' \<mapsto> ''old''] (\<lparr>sysfs = [], hwaddrs = [], failing = []\<rparr>, [])
     = (Some (ExternalError ''no such file or directory''),
        [''last_state.vf.node_guid'' \<mapsto> ''old'', ''last_state.vf.id'' \<mapsto> ''3''],
        (\<lparr>sysfs = [], hwaddrs = [], failing = []\<rparr>, [CallReadFile ''/sys/class/infiniband/mlx0/device/sriov/3/node'']))"
    by (simp add: infinibandSnapshotGUIDs_def infinibandGetVFNodeGUID_def do_ReadFile_def simHost_def
        Sprintf_d_def digits.simps)
  show ?thesis
    using Snapshot_spec [OF run] run by simp
qed

subsection \<open>The hardware address setter\<close>

text \<open>
  C3: \<^verbatim>\<open>infinibandSetDevMAC\<close> passes an address of length 59 unchanged to
  \<^verbatim>\<open>NetworkSetDevMAC\<close>. For an address of length 23 it calls \<^verbatim>\<open>NetworkGetDevMAC\<close>: an
  error is returned without a set; with the current address \<open>C\<close>, the set is called with
  exactly \<^verbatim>\<open>C[:36]\<close> followed by the requested address, \<^verbatim>\<open>C[:36]\<close> being the Go slice,
  whose panic ends the function. For any other length it returns the invalid-length error
  and calls nothing.
\<close>

theorem SetDevMAC_spec:
  "(length hwaddr = 59 \<longrightarrow>
      infinibandSetDevMAC X ibDev hwaddr s =
        (Inr (fst (NetworkSetDevMAC X ibDev hwaddr (fst s))),
         (snd (NetworkSetDevMAC X ibDev hwaddr (fst s)),
          snd s @ [CallNetworkSetDevMAC ibDev hwaddr])))
   \<and> (length hwaddr = 23 \<longrightarrow>
        (\<forall>C w1. NetworkGetDevMAC X ibDev (fst s) = (Inr C, w1) \<longrightarrow>
           (case slice_to C 36 of
              Inl p \<Rightarrow>
                infinibandSetDevMAC X ibDev hwaddr s =
                  (Inl p, (w1, snd s @ [CallNetworkGetDevMAC ibDev]))
            | Inr pre \<Rightarrow>
                infinibandSetDevMAC X ibDev hwaddr s =
                  (Inr (fst (NetworkSetDevMAC X ibDev (pre @ hwaddr) w1)),
                   (snd (NetworkSetDevMAC X ibDev (pre @ hwaddr) w1),
                    snd s @ [CallNetworkGetDevMAC ibDev,
                             CallNetworkSetDevMAC ibDev (pre @ hwaddr)]))))
        \<and> (\<forall>e w1. NetworkGetDevMAC X ibDev (fst s) = (Inl e, w1) \<longrightarrow>
             infinibandSetDevMAC X ibDev hwaddr s =
               (Inr (Some e), (w1, snd s @ [CallNetworkGetDevMAC ibDev]))))
   \<and> (length hwaddr \<noteq> 59 \<and> length hwaddr \<noteq> 23 \<longrightarrow>
        infinibandSetDevMAC X ibDev hwaddr s = (Inr (Some ErrInvalidLength), s))"
  by (auto simp: infinibandSetDevMAC_def do_NetworkSetDevMAC_def do_NetworkGetDevMAC_def
      split: prod.splits sum.splits)

lemma slice_to_36:
  "slice_to ''a0:00:0f:c0:fe:80:00:00:00:00:00:00:4a:c8:f9:1b:aa:57:ef:19'' 36
     = Inr ''a0:00:0f:c0:fe:80:00:00:00:00:00:00:''"
  by (simp add: slice_to_def)

theorem SetDevMAC_spec_witness:
  "length ''02:c9:03:00:00:10:00:01'' = 23
   \<and> infinibandSetDevMAC simHost ''ib0'' ''02:c9:03:00:00:10:00:01''
        (\<lparr>sysfs = [],
          hwaddrs = [(''ib0'', ''a0:00:0f:c0:fe:80:00:00:00:00:00:00:4a:c8:f9:1b:aa:57:ef:19'')],
          failing = []\<rparr>, [])
      = (Inr None,
         (\<lparr>sysfs = [],
           hwaddrs = [(''ib0'', ''a0:00:0f:c0:fe:80:00:00:00:00:00:00:02:c9:03:00:00:10:00:01''),
                      (''ib0'', ''a0:00:0f:c0:fe:80:00:00:00:00:00:00:4a:c8:f9:1b:aa:57:ef:19'')],
           failing = []\<rparr>,
          [CallNetworkGetDevMAC ''ib0'',
           CallNetworkSetDevMAC ''ib0''
             ''a0:00:0f:c0:fe:80:00:00:00:00:00:00:02:c9:03:00:00:10:00:01'']))"
proof -
  have len: "length ''02:c9:03:00:00:10:00:01'' = 23"
    by simp
  have get: "NetworkGetDevMAC simHost ''ib0''
      (fst (\<lparr>sysfs = [],
          hwaddrs = [(''ib0'', ''a0:00:0f:c0:fe:80:00:00:00:00:00:00:4a:c8:f9:1b:aa:57:ef:19'')],
          failing = []\<rparr>, []))
     = (Inr ''a0:00:0f:c0:fe:80:00:00:00:00:00:00:4a:c8:f9:1b:aa:57:ef:19'',
        \<lparr>sysfs = [],
          hwaddrs = [(''ib0'', ''a0:00:0f:c0:fe:80:00:00:00:00:00:00:4a:c8:f9:1b:aa:57:ef:19'')],
          failing = []\<rparr>)"
    by (simp add: simHost_def)
  from SetDevMAC_spec [of "''02:c9:03:00:00:10:00:01''" simHost "''ib0''", THEN conjunct2,
      THEN conjunct1, THEN mp, OF len, THEN conjunct1, THEN spec, THEN spec, THEN mp, OF get]
  show ?thesis
    unfolding slice_to_36 by (simp add: simHost_def)
qed

text \<open>
  C10: in the branch of a 23-character address, the slice \<^verbatim>\<open>curHwaddr[:36]\<close> is taken
  without a length guard: the function panics exactly when the current address that
  \<^verbatim>\<open>NetworkGetDevMAC\<close> returned has fewer than 36 characters, with the slice bounds out of
  range and before any set.
\<close>

theorem SetDevMAC_short_panics:
  "length hwaddr = 23 \<Longrightarrow> NetworkGetDevMAC X ibDev (fst s) = (Inr C, w1) \<Longrightarrow>
     ((\<exists>p. fst (infinibandSetDevMAC X ibDev hwaddr s) = Inl p) = (length C < 36))
     \<and> (length C < 36 \<longrightarrow>
          infinibandSetDevMAC X ibDev hwaddr s =
            (Inl (SliceBoundsOutOfRange 36 (length C)),
             (w1, snd s @ [CallNetworkGetDevMAC ibDev])))"
  by (auto simp: infinibandSetDevMAC_def do_NetworkSetDevMAC_def do_NetworkGetDevMAC_def slice_to_def
      split: prod.splits sum.splits)

theorem SetDevMAC_short_panics_witness:
  "length ''02:c9:03:00:00:10:00:01'' = 23
   \<and> length ''52:54:00:12:34:56'' < 36
   \<and> infinibandSetDevMAC simHost ''eth0'' ''02:c9:03:00:00:10:00:01''
        (\<lparr>sysfs = [], hwaddrs = [(''eth0'', ''52:54:00:12:34:56'')], failing = []\<rparr>, [])
      = (Inl (SliceBoundsOutOfRange 36 17),
         (\<lparr>sysfs = [], hwaddrs = [(''eth0'', ''52:54:00:12:34:56'')], failing = []\<rparr>,
          [CallNetworkGetDevMAC ''eth0'']))"
proof -
  have len: "length ''02:c9:03:00:00:10:00:01'' = 23"
    by simp
  have get: "NetworkGetDevMAC simHost ''eth0''
      (fst (\<lparr>sysfs = [], hwaddrs = [(''eth0'', ''52:54:00:12:34:56'')], failing = []\<rparr>, []))
     = (Inr ''52:54:00:12:34:56'',
        \<lparr>sysfs = [], hwaddrs = [(''eth0'', ''52:54:00:12:34:56'')], failing = []\<rparr>)"
    by (simp add: simHost_def)
  show ?thesis
    using SetDevMAC_short_panics [OF len get] by simp
qed

subsection \<open>The device node provisioner\<close>

lemma addDevice_setupEach:
  "addDevice X devicesPath deviceName name s =
     setupEach X devicesPath deviceName (filter (\<lambda>n. n \<noteq> []) [name]) s"
  by (simp add: addDevice_def split: prod.splits option.splits)

lemma setupEach_append:
  "setupEach X devicesPath deviceName (xs @ ys) s =
     (case setupEach X devicesPath deviceName xs s of
        (Some err, s1) \<Rightarrow> (Some err, s1)
      | (None, s1) \<Rightarrow> setupEach X devicesPath deviceName ys s1)"
  by (induction xs arbitrary: s) (auto split: prod.splits option.splits)

lemma AddDevices_setupEach:
  assumes "Infiniband ibDev = Some ib"
  shows "infinibandAddDevices X devicesPath deviceName ibDev s =
     setupEach X devicesPath deviceName
       (filter (\<lambda>n. n \<noteq> []) [IsSMName ib, MADName ib, VerbName ib]) s"
proof -
  have split3: "filter (\<lambda>n. n \<noteq> []) [IsSMName ib, MADName ib, VerbName ib] =
      filter (\<lambda>n. n \<noteq> []) [IsSMName ib] @ filter (\<lambda>n. n \<noteq> []) [MADName ib]
        @ filter (\<lambda>n. n \<noteq> []) [VerbName ib]"
    by simp
  show ?thesis
    unfolding split3 setupEach_append infinibandAddDevices_def assms addDevice_setupEach
    by (simp split: prod.splits option.splits)
qed

lemma do_unixDeviceSetup_calls:
  "do_unixDeviceSetup X devicesPath IBDevPrefix deviceName
      [(''source'', ''/dev/infiniband/'' @ name)] False s = (r, s1) \<Longrightarrow>
   snd s1 = snd s @ [setupCall devicesPath deviceName name]"
  by (auto simp: do_unixDeviceSetup_def setupCall_def split: prod.splits)

lemma setupEach_calls_ok:
  "setupEach X devicesPath deviceName names s = (None, s') \<Longrightarrow>
     snd s' = snd s @ map (setupCall devicesPath deviceName) names"
proof (induction names arbitrary: s)
  case Nil
  then show ?case by simp
next
  case (Cons name names)
  obtain r s1 where step: "do_unixDeviceSetup X devicesPath IBDevPrefix deviceName
      [(''source'', ''/dev/infiniband/'' @ name)] False s = (r, s1)"
    by (cases "do_unixDeviceSetup X devicesPath IBDevPrefix deviceName
      [(''source'', ''/dev/infiniband/'' @ name)] False s") auto
  with Cons.prems have r: "r = None" and rest: "setupEach X devicesPath deviceName names s1 = (None, s')"
    by (auto split: option.splits)
  from Cons.IH [OF rest] do_unixDeviceSetup_calls [OF step] show ?case by simp
qed

lemma setupEach_calls_err:
  "setupEach X devicesPath deviceName names s = (Some e, s') \<Longrightarrow>
     \<exists>k<length names. snd s' = snd s @ map (setupCall devicesPath deviceName) (take (Suc k) names)"
proof (induction names arbitrary: s)
  case Nil
  then show ?case by simp
next
  case (Cons name names)
  obtain r s1 where step: "do_unixDeviceSetup X devicesPath IBDevPrefix deviceName
      [(''source'', ''/dev/infiniband/'' @ name)] False s = (r, s1)"
    by (cases "do_unixDeviceSetup X devicesPath IBDevPrefix deviceName
      [(''source'', ''/dev/infiniband/'' @ name)] False s") auto
  show ?case
  proof (cases r)
    case None
    with Cons.prems step have rest: "setupEach X devicesPath deviceName names s1 = (Some e, s')"
      by simp
    from Cons.IH [OF rest] obtain k where k: "k < length names"
      "snd s' = snd s1 @ map (setupCall devicesPath deviceName) (take (Suc k) names)"
      by blast
    with do_unixDeviceSetup_calls [OF step]
    have "Suc k < length (name # names) \<and>
      snd s' = snd s @ map (setupCall devicesPath deviceName) (take (Suc (Suc k)) (name # names))"
      by simp
    then show ?thesis by blast
  next
    case (Some e')
    with Cons.prems step have "s' = s1" by simp
    with do_unixDeviceSetup_calls [OF step]
    have "0 < length (name # names) \<and>
      snd s' = snd s @ map (setupCall devicesPath deviceName) (take (Suc 0) (name # names))"
      by simp
    then show ?thesis by blast
  qed
qed

text \<open>
  C9: \<^verbatim>\<open>infinibandAddDevices\<close> fails at once when the port has no InfiniBand payload.
  Otherwise it sets up the non-empty interface names in the order subnet-manager,
  management-datagram, verbs, stopping at the first error, which it returns: on success
  the calls issued are one per non-empty name, in that order; on an error they are the
  calls up to the failing one. For a port with the subnet-manager and verbs names set and
  the management-datagram name unset, the calls issued are exactly the two of those names
  (when the first does not fail).
\<close>

theorem AddDevices_spec:
  "(Infiniband ibDev = None \<longrightarrow>
      infinibandAddDevices X devicesPath deviceName ibDev s = (Some ErrNoInfinibandDevices, s))
   \<and> (\<forall>ib names. Infiniband ibDev = Some ib
         \<and> names = filter (\<lambda>n. n \<noteq> []) [IsSMName ib, MADName ib, VerbName ib] \<longrightarrow>
        infinibandAddDevices X devicesPath deviceName ibDev s
          = setupEach X devicesPath deviceName names s
        \<and> (\<forall>s'. infinibandAddDevices X devicesPath deviceName ibDev s = (None, s') \<longrightarrow>
              snd s' = snd s @ map (setupCall devicesPath deviceName) names)
        \<and> (\<forall>e s'. infinibandAddDevices X devicesPath deviceName ibDev s = (Some e, s') \<longrightarrow>
              (\<exists>k<length names.
                 snd s' = snd s @ map (setupCall devicesPath deviceName) (take (Suc k) names)))
        \<and> (IsSMName ib \<noteq> [] \<and> MADName ib = [] \<and> VerbName ib \<noteq> []
             \<and> fst (unixDeviceSetup X devicesPath IBDevPrefix deviceName
                      [(''source'', ''/dev/infiniband/'' @ IsSMName ib)] False (fst s)) = None \<longrightarrow>
            snd (snd (infinibandAddDevices X devicesPath deviceName ibDev s))
              = snd s @ [setupCall devicesPath deviceName (IsSMName ib),
                         setupCall devicesPath deviceName (VerbName ib)]))"
proof -
  have none: "Infiniband ibDev = None \<Longrightarrow>
      infinibandAddDevices X devicesPath deviceName ibDev s = (Some ErrNoInfinibandDevices, s)"
    by (simp add: infinibandAddDevices_def)
  have two: "snd (snd (setupEach X devicesPath deviceName [a, b] s))
              = snd s @ [setupCall devicesPath deviceName a, setupCall devicesPath deviceName b]"
    if "fst (unixDeviceSetup X devicesPath IBDevPrefix deviceName
                      [(''source'', ''/dev/infiniband/'' @ a)] False (fst s)) = None" for a b
    using that by (auto simp: do_unixDeviceSetup_def setupCall_def split: prod.splits option.splits)
  show ?thesis
    using none AddDevices_setupEach [of ibDev _ X devicesPath deviceName s]
      setupEach_calls_ok [of X devicesPath deviceName _ s]
      setupEach_calls_err [of X devicesPath deviceName _ s] two
    by (auto simp del: setupEach.simps)
qed


theorem AddDevices_spec_witness:
  "infinibandAddDevices simHost ''/devices'' ''ib0''
      \<lparr>ID = ''mlx0'', Port = 1, Protocol = ''infiniband'',
        Infiniband = Some \<lparr>IsSMName = ''issm0'', MADName = [], VerbName = ''uverbs0''\<rparr>\<rparr>
      (\<lparr>sysfs = [], hwaddrs = [], failing = []\<rparr>, [])
    = (None, (\<lparr>sysfs = [], hwaddrs = [], failing = []\<rparr>,
        [CallUnixDeviceSetup ''/devices'' ''infiniband.unix'' ''ib0''
           [(''source'', ''/dev/infiniband/issm0'')] False,
         CallUnixDeviceSetup ''/devices'' ''infiniband.unix'' ''ib0''
           [(''source'', ''/dev/infiniband/uverbs0'')] False]))
   \<and> infinibandAddDevices simHost ''/devices'' ''ib0''
      \<lparr>ID = ''mlx0'', Port = 1, Protocol = ''infiniband'',
        Infiniband = Some \<lparr>IsSMName = ''issm0'', MADName = [], VerbName = ''uverbs0''\<rparr>\<rparr>
      (\<lparr>sysfs = [], hwaddrs = [], failing = [''/dev/infiniband/issm0'']\<rparr>, [])
    = (Some (ExternalError ''device setup failed''),
       (\<lparr>sysfs = [], hwaddrs = [], failing = [''/dev/infiniband/issm0'']\<rparr>,
        [CallUnixDeviceSetup ''/devices'' ''infiniband.unix'' ''ib0''
           [(''source'', ''/dev/infiniband/issm0'')] False]))"
proof -
  let ?pf = "\<lparr>ID = ''mlx0'', Port = 1, Protocol = ''infiniband'',
        Infiniband = Some \<lparr>IsSMName = ''issm0'', MADName = [], VerbName = ''uverbs0''\<rparr>\<rparr>"
  have payload: "Infiniband ?pf = Some \<lparr>IsSMName = ''issm0'', MADName = [], VerbName = ''uverbs0''\<rparr>
      \<and> [''issm0'', ''uverbs0''] = filter (\<lambda>n. n \<noteq> [])
          [IsSMName \<lparr>IsSMName = ''issm0'', MADName = [], VerbName = ''uverbs0''\<rparr>,
           MADName \<lparr>IsSMName = ''issm0'', MADName = [], VerbName = ''uverbs0''\<rparr>,
           VerbName \<lparr>IsSMName = ''issm0'', MADName = [], VerbName = ''uverbs0''\<rparr>]"
    by simp
  have 1: "infinibandAddDevices simHost ''/devices'' ''ib0'' ?pf s
      = setupEach simHost ''/devices'' ''ib0'' [''issm0'', ''uverbs0''] s" for s
    using AddDevices_spec [of ?pf simHost "''/devices''" "''ib0''" s, THEN conjunct2, THEN spec,
        THEN spec, THEN mp, OF payload]
    by (rule conjunct1)
  show ?thesis
    unfolding 1 by (simp add: do_unixDeviceSetup_def simHost_def IBDevPrefix_def)
qed

subsection \<open>The GUID accessors\<close>

text \<open>The calls that the accessors make, and some values on the simulated host.\<close>

lemma GetVFNodeGUID_calls:
  "infinibandGetVFNodeGUID X ibDev vfID s = (r, s1) \<Longrightarrow>
     snd s1 = snd s @ [CallReadFile (sriovFile ibDev vfID ''node'')]"
  by (auto simp: infinibandGetVFNodeGUID_def do_ReadFile_def sriovFile_def split: prod.splits sum.splits)

lemma GetVFPortGUID_calls:
  "infinibandGetVFPortGUID X ibDev vfID s = (r, s1) \<Longrightarrow>
     snd s1 = snd s @ [CallReadFile (sriovFile ibDev vfID ''port'')]"
  by (auto simp: infinibandGetVFPortGUID_def do_ReadFile_def sriovFile_def split: prod.splits sum.splits)

lemma hardwareWrites_append: "hardwareWrites (xs @ ys) = hardwareWrites xs + hardwareWrites ys"
  by (simp add: hardwareWrites_def)

lemma SetVFNodeGUID_equal:
  "infinibandGetVFNodeGUID X ibDev vfID s = (Inr g, s1) \<Longrightarrow>
     infinibandSetVFNodeGUID X ibDev vfID g s = (None, s1)
     \<and> hardwareWrites (snd s1) = hardwareWrites (snd s)"
  using GetVFNodeGUID_calls [of X ibDev vfID s "Inr g" s1]
  by (simp add: infinibandSetVFNodeGUID_def hardwareWrites_append) (simp add: hardwareWrites_def)

lemma SetVFPortGUID_equal:
  "infinibandGetVFPortGUID X ibDev vfID s = (Inr g, s1) \<Longrightarrow>
     infinibandSetVFPortGUID X ibDev vfID g s = (None, s1)
     \<and> hardwareWrites (snd s1) = hardwareWrites (snd s)"
  using GetVFPortGUID_calls [of X ibDev vfID s "Inr g" s1]
  by (simp add: infinibandSetVFPortGUID_def hardwareWrites_append) (simp add: hardwareWrites_def)

lemma SetVFNodeGUID_writes:
  assumes get: "infinibandGetVFNodeGUID X ibDev vfID s = (Inr c, s0)"
    and set: "infinibandSetVFNodeGUID X ibDev vfID g s = (None, s1)"
  shows "hardwareWrites (snd s1) = hardwareWrites (snd s) + (if c = g then 0 else 1)"
proof (cases "c = g")
  case True
  then show ?thesis
    using SetVFNodeGUID_equal [of X ibDev vfID s g s0] get set by simp
next
  case False
  from set get False obtain guid where "ParseMAC g = Inr guid"
    and w: "do_LinkSetNodeGUID X ibDev guid vfID s0 = (None, s1)"
    by (auto simp: infinibandSetVFNodeGUID_def split: sum.splits prod.splits option.splits)
  from w have "snd s1 = snd s0 @ [CallLinkSetNodeGUID ibDev guid vfID]"
    by (auto simp: do_LinkSetNodeGUID_def split: prod.splits)
  with GetVFNodeGUID_calls [OF get] False show ?thesis
    by (simp add: hardwareWrites_def)
qed

lemma SetVFNodeGUID_calls:
  assumes "infinibandSetVFNodeGUID X ibDev vfID g s = (r, s1)"
  shows "snd s1 = snd s @ [CallReadFile (sriovFile ibDev vfID ''node'')]
    \<or> (\<exists>guid. snd s1 = snd s @ [CallReadFile (sriovFile ibDev vfID ''node''),
                                  CallLinkSetNodeGUID ibDev guid vfID])"
proof -
  obtain rg s0 where get: "infinibandGetVFNodeGUID X ibDev vfID s = (rg, s0)"
    by (cases "infinibandGetVFNodeGUID X ibDev vfID s") auto
  note c = GetVFNodeGUID_calls [OF get]
  show ?thesis
    using assms get c
    by (auto simp: infinibandSetVFNodeGUID_def do_LinkSetNodeGUID_def
        split: sum.splits prod.splits if_splits option.splits)
qed

lemma SetVFPortGUID_calls:
  assumes "infinibandSetVFPortGUID X ibDev vfID g s = (r, s1)"
  shows "snd s1 = snd s @ [CallReadFile (sriovFile ibDev vfID ''port'')]
    \<or> (\<exists>guid. snd s1 = snd s @ [CallReadFile (sriovFile ibDev vfID ''port''),
                                  CallLinkSetPortGUID ibDev guid vfID])"
proof -
  obtain rg s0 where get: "infinibandGetVFPortGUID X ibDev vfID s = (rg, s0)"
    by (cases "infinibandGetVFPortGUID X ibDev vfID s") auto
  note c = GetVFPortGUID_calls [OF get]
  show ?thesis
    using assms get c
    by (auto simp: infinibandSetVFPortGUID_def do_LinkSetPortGUID_def
        split: sum.splits prod.splits if_splits option.splits)
qed

lemma sriovFile_node_port: "sriovFile ibDev vfID ''port'' \<noteq> sriovFile ibDev vfID ''node''"
  by (simp add: sriovFile_def)

lemma colonGroups_numeral:
  "colonGroups e (numeral k) s =
     (case xtoi2 s e of
        None \<Rightarrow> None
      | Some b \<Rightarrow>
          (case colonGroups e (pred_numeral k) (drop 3 s) of
             None \<Rightarrow> None
           | Some bs \<Rightarrow> Some (b # bs)))"
  by (simp add: numeral_eq_Suc)

lemma ParseMAC_example:
  "ParseMAC ''4a:c8:f9:1b:aa:57:ef:19'' = Inr [74, 200, 249, 27, 170, 87, 239, 25]"
  by (simp add: ParseMAC_def colonGroups_numeral xtoi2_def xtoi_def hexval_def big_def)

lemma showGUID_example:
  "showGUID [74, 200, 249, 27, 170, 87, 239, 25] = ''4a:c8:f9:1b:aa:57:ef:19''"
  by (simp add: hexByte_def)

lemma TrimSpace_example:
  "TrimSpace (''4a:c8:f9:1b:aa:57:ef:19'' @ [CHR 0x0A]) = ''4a:c8:f9:1b:aa:57:ef:19''"
  "TrimSpace (''00:00:00:00:00:00:00:00'' @ [CHR 0x0A]) = ''00:00:00:00:00:00:00:00''"
  by (simp_all add: TrimSpace_def spaceRunes_def)

lemma sriovFile_mlx0_0:
  "sriovFile ''mlx0'' 0 ''node'' = ''/sys/class/infiniband/mlx0/device/sriov/0/node''"
  "sriovFile ''mlx0'' 0 ''port'' = ''/sys/class/infiniband/mlx0/device/sriov/0/port''"
  by (simp_all add: sriovFile_def Sprintf_d_def digits.simps)

text \<open>
  C4, as the code has it: when the read of the current GUID succeeds and the value equals
  the requested one, \<^verbatim>\<open>infinibandSetVFNodeGUID\<close> (and likewise
  \<^verbatim>\<open>infinibandSetVFPortGUID\<close>) succeeds without a hardware write. Hence, when
  \<^verbatim>\<open>infinibandSetVFNodeGUID\<close> is called twice with the same GUID, the first call succeeds
  and the device then reports that GUID, the second call succeeds without a hardware write:
  the two calls perform exactly one hardware write when the value differed from the GUID
  before the first call, and none when it was equal already.
\<close>

theorem SetGUID_idempotent:
  "(\<forall>s1. infinibandGetVFNodeGUID X ibDev vfID s = (Inr g, s1) \<longrightarrow>
       infinibandSetVFNodeGUID X ibDev vfID g s = (None, s1)
       \<and> hardwareWrites (snd s1) = hardwareWrites (snd s))
   \<and> (\<forall>s1. infinibandGetVFPortGUID X ibDev vfID s = (Inr g, s1) \<longrightarrow>
       infinibandSetVFPortGUID X ibDev vfID g s = (None, s1)
       \<and> hardwareWrites (snd s1) = hardwareWrites (snd s))
   \<and> (\<forall>c s0 s1 s2.
         infinibandGetVFNodeGUID X ibDev vfID s = (Inr c, s0)
         \<and> infinibandSetVFNodeGUID X ibDev vfID g s = (None, s1)
         \<and> infinibandGetVFNodeGUID X ibDev vfID s1 = (Inr g, s2) \<longrightarrow>
       setNodeGUIDTwice X ibDev vfID g s = (None, None, s2)
       \<and> hardwareWrites (snd s2) = hardwareWrites (snd s1)
       \<and> hardwareWrites (snd s2) = hardwareWrites (snd s) + (if c = g then 0 else 1))"
proof -
  have twice: "setNodeGUIDTwice X ibDev vfID g s = (None, None, s2)
       \<and> hardwareWrites (snd s2) = hardwareWrites (snd s1)
       \<and> hardwareWrites (snd s2) = hardwareWrites (snd s) + (if c = g then 0 else 1)"
    if get: "infinibandGetVFNodeGUID X ibDev vfID s = (Inr c, s0)"
      and set: "infinibandSetVFNodeGUID X ibDev vfID g s = (None, s1)"
      and get': "infinibandGetVFNodeGUID X ibDev vfID s1 = (Inr g, s2)"
    for c s0 s1 s2
    using SetVFNodeGUID_equal [OF get'] SetVFNodeGUID_writes [OF get set] set
    by (simp add: setNodeGUIDTwice_def)
  show ?thesis
    using SetVFNodeGUID_equal [of X ibDev vfID s g] SetVFPortGUID_equal [of X ibDev vfID s g] twice
    by blast
qed

theorem SetGUID_idempotent_witness:
  "setNodeGUIDTwice simHost ''mlx0'' 0 ''4a:c8:f9:1b:aa:57:ef:19''
      (\<lparr>sysfs = [(''/sys/class/infiniband/mlx0/device/sriov/0/node'',
                   ''00:00:00:00:00:00:00:00'' @ [CHR 0x0A])],
        hwaddrs = [], failing = []\<rparr>, [])
    = (None, None,
       (\<lparr>sysfs = [(''/sys/class/infiniband/mlx0/device/sriov/0/node'',
                    ''4a:c8:f9:1b:aa:57:ef:19'' @ [CHR 0x0A]),
                   (''/sys/class/infiniband/mlx0/device/sriov/0/node'',
                    ''00:00:00:00:00:00:00:00'' @ [CHR 0x0A])],
         hwaddrs = [], failing = []\<rparr>,
        [CallReadFile ''/sys/class/infiniband/mlx0/device/sriov/0/node'',
         CallLinkSetNodeGUID ''mlx0'' [74, 200, 249, 27, 170, 87, 239, 25] 0,
         CallReadFile ''/sys/class/infiniband/mlx0/device/sriov/0/node'']))
   \<and> hardwareWrites
        [CallReadFile ''/sys/class/infiniband/mlx0/device/sriov/0/node'',
         CallLinkSetNodeGUID ''mlx0'' [74, 200, 249, 27, 170, 87, 239, 25] 0,
         CallReadFile ''/sys/class/infiniband/mlx0/device/sriov/0/node''] = 1"
proof -
  let ?file = "''/sys/class/infiniband/mlx0/device/sriov/0/node''"
  let ?g = "''4a:c8:f9:1b:aa:57:ef:19''"
  let ?w0 = "\<lparr>sysfs = [(?file, ''00:00:00:00:00:00:00:00'' @ [CHR 0x0A])],
        hwaddrs = [], failing = []\<rparr>"
  let ?w1 = "\<lparr>sysfs = [(?file, ?g @ [CHR 0x0A]), (?file, ''00:00:00:00:00:00:00:00'' @ [CHR 0x0A])],
        hwaddrs = [], failing = []\<rparr>"
  let ?linkset = "CallLinkSetNodeGUID ''mlx0'' [74, 200, 249, 27, 170, 87, 239, 25] 0"
  have path: "''/sys/class/infiniband/'' @ ''mlx0'' @ ''/device/sriov/'' @ Sprintf_d 0 @ ''/node'' = ?file"
    by (simp add: Sprintf_d_def digits.simps)
  have get0: "infinibandGetVFNodeGUID simHost ''mlx0'' 0 (?w0, [])
      = (Inr ''00:00:00:00:00:00:00:00'', (?w0, [CallReadFile ?file]))"
    unfolding infinibandGetVFNodeGUID_def path
    by (simp add: do_ReadFile_def simHost_def TrimSpace_example [simplified])
  have get1: "infinibandGetVFNodeGUID simHost ''mlx0'' 0 (?w1, [CallReadFile ?file, ?linkset])
      = (Inr ?g, (?w1, [CallReadFile ?file, ?linkset, CallReadFile ?file]))"
    unfolding infinibandGetVFNodeGUID_def path
    by (simp add: do_ReadFile_def simHost_def TrimSpace_example [simplified])
  have set0: "infinibandSetVFNodeGUID simHost ''mlx0'' 0 ?g (?w0, [])
      = (None, (?w1, [CallReadFile ?file, ?linkset]))"
    unfolding infinibandSetVFNodeGUID_def get0
    by (simp add: ParseMAC_example do_LinkSetNodeGUID_def simHost_def sriovFile_mlx0_0
        showGUID_example [simplified])
  from SetGUID_idempotent [of simHost "''mlx0''" 0 "(?w0, [])" ?g, THEN conjunct2, THEN conjunct2,
      THEN spec, THEN spec, THEN spec, THEN spec, THEN mp, OF conjI [OF get0 conjI [OF set0 get1]]]
  show ?thesis
    by (simp add: hardwareWrites_def)
qed

text \<open>
  The claim as stated, exactly one hardware write for every device and GUID, fails on a
  device that reports the requested GUID already: the two calls only read.
\<close>

theorem SetGUID_twice_counterexample:
  "setNodeGUIDTwice simHost ''mlx0'' 0 ''4a:c8:f9:1b:aa:57:ef:19''
      (\<lparr>sysfs = [(''/sys/class/infiniband/mlx0/device/sriov/0/node'',
                   ''4a:c8:f9:1b:aa:57:ef:19'' @ [CHR 0x0A])],
        hwaddrs = [], failing = []\<rparr>, [])
    = (None, None,
       (\<lparr>sysfs = [(''/sys/class/infiniband/mlx0/device/sriov/0/node'',
                    ''4a:c8:f9:1b:aa:57:ef:19'' @ [CHR 0x0A])],
         hwaddrs = [], failing = []\<rparr>,
        [CallReadFile ''/sys/class/infiniband/mlx0/device/sriov/0/node'',
         CallReadFile ''/sys/class/infiniband/mlx0/device/sriov/0/node'']))
   \<and> hardwareWrites
        [CallReadFile ''/sys/class/infiniband/mlx0/device/sriov/0/node'',
         CallReadFile ''/sys/class/infiniband/mlx0/device/sriov/0/node''] \<noteq> 1"
proof -
  let ?file = "''/sys/class/infiniband/mlx0/device/sriov/0/node''"
  have path: "''/sys/class/infiniband/'' @ ''mlx0'' @ ''/device/sriov/'' @ Sprintf_d 0 @ ''/node'' = ?file"
    by (simp add: Sprintf_d_def digits.simps)
  show ?thesis
    unfolding setNodeGUIDTwice_def infinibandSetVFNodeGUID_def infinibandGetVFNodeGUID_def path
    by (simp add: do_ReadFile_def simHost_def TrimSpace_example [simplified] hardwareWrites_def)
qed

subsection \<open>The order of the two restores\<close>

text \<open>
  C1, as the code has it: when the store holds a VF index that parses as an unsigned 32-bit
  decimal, a node GUID and a port GUID, \<^verbatim>\<open>infinibandRestoreGUIDs\<close> attempts the node GUID
  restore first. If that fails, it returns the failure, wrapped with the device, the VF
  index and the node GUID, and the port GUID restore is not attempted: the file of the port
  GUID is not read. If it succeeds, the port GUID restore is attempted, and the result is
  its failure, wrapped likewise, or success.
\<close>

theorem Restore_node_then_port:
  assumes "lookup volatile ''last_state.vf.id'' \<noteq> []"
    and "ParseUint_10_32 (lookup volatile ''last_state.vf.id'') = Inr vfID"
    and "lookup volatile ''last_state.vf.node_guid'' = nodeGUID" and "nodeGUID \<noteq> []"
    and "lookup volatile ''last_state.vf.port_guid'' = portGUID" and "portGUID \<noteq> []"
  shows "(\<exists>rest. snd (snd (infinibandRestoreGUIDs X hostName volatile s))
            = snd s @ CallReadFile (sriovFile hostName (int vfID) ''node'') # rest)
    \<and> (\<forall>e s1. infinibandSetVFNodeGUID X hostName (int vfID) nodeGUID s = (Some e, s1) \<longrightarrow>
          infinibandRestoreGUIDs X hostName volatile s
            = (Some (ErrRestoreNodeGUID hostName (int vfID) nodeGUID e), s1)
          \<and> CallReadFile (sriovFile hostName (int vfID) ''port'')
               \<notin> set (drop (length (snd s)) (snd s1)))
    \<and> (\<forall>s1. infinibandSetVFNodeGUID X hostName (int vfID) nodeGUID s = (None, s1) \<longrightarrow>
          infinibandRestoreGUIDs X hostName volatile s
            = (case infinibandSetVFPortGUID X hostName (int vfID) portGUID s1 of
                 (Some e, s2) \<Rightarrow> (Some (ErrRestorePortGUID hostName (int vfID) portGUID e), s2)
               | (None, s2) \<Rightarrow> (None, s2))
          \<and> (\<exists>rest. snd (snd (infinibandRestoreGUIDs X hostName volatile s))
                = snd s1 @ CallReadFile (sriovFile hostName (int vfID) ''port'') # rest))"
proof -
  obtain rn s1 where node: "infinibandSetVFNodeGUID X hostName (int vfID) nodeGUID s = (rn, s1)"
    by (cases "infinibandSetVFNodeGUID X hostName (int vfID) nodeGUID s") auto
  obtain rp s2 where port: "infinibandSetVFPortGUID X hostName (int vfID) portGUID s1 = (rp, s2)"
    by (cases "infinibandSetVFPortGUID X hostName (int vfID) portGUID s1") auto
  note nc = SetVFNodeGUID_calls [OF node]
  note pc = SetVFPortGUID_calls [OF port]
  show ?thesis
  proof (cases rn)
    case None
    have res: "infinibandRestoreGUIDs X hostName volatile s
        = (case rp of Some e \<Rightarrow> (Some (ErrRestorePortGUID hostName (int vfID) portGUID e), s2)
           | None \<Rightarrow> (None, s2))"
      using assms node port None by (simp add: infinibandRestoreGUIDs_def split: option.splits)
    have calls: "snd (snd (infinibandRestoreGUIDs X hostName volatile s)) = snd s2"
      unfolding res by (simp split: option.splits)
    show ?thesis
      unfolding calls using node port None nc pc res
      by (auto split: option.splits)
  next
    case (Some e)
    have res: "infinibandRestoreGUIDs X hostName volatile s
        = (Some (ErrRestoreNodeGUID hostName (int vfID) nodeGUID e), s1)"
      using assms node Some by (simp add: infinibandRestoreGUIDs_def)
    show ?thesis
      unfolding res using node Some nc sriovFile_node_port [of hostName "int vfID"]
      by auto
  qed
qed

theorem Restore_node_then_port_witness:
  "infinibandRestoreGUIDs simHost ''mlx0''
      [''last_state.vf.id'' \<mapsto> ''0'',
       ''last_state.vf.node_guid'' \<mapsto> ''4a:c8:f9:1b:aa:57:ef:19'',
       ''last_state.vf.port_guid'' \<mapsto> ''4a:c8:f9:1b:aa:57:ef:19'']
      (\<lparr>sysfs = [(''/sys/class/infiniband/mlx0/device/sriov/0/node'',
                   ''00:00:00:00:00:00:00:00'' @ [CHR 0x0A]),
                  (''/sys/class/infiniband/mlx0/device/sriov/0/port'',
                   ''4a:c8:f9:1b:aa:57:ef:19'' @ [CHR 0x0A])],
        hwaddrs = [], failing = []\<rparr>, [])
    = (None,
       (\<lparr>sysfs = [(''/sys/class/infiniband/mlx0/device/sriov/0/node'',
                    ''4a:c8:f9:1b:aa:57:ef:19'' @ [CHR 0x0A]),
                   (''/sys/class/infiniband/mlx0/device/sriov/0/node'',
                    ''00:00:00:00:00:00:00:00'' @ [CHR 0x0A]),
                   (''/sys/class/infiniband/mlx0/device/sriov/0/port'',
                    ''4a:c8:f9:1b:aa:57:ef:19'' @ [CHR 0x0A])],
         hwaddrs = [], failing = []\<rparr>,
        [CallReadFile ''/sys/class/infiniband/mlx0/device/sriov/0/node'',
         CallLinkSetNodeGUID ''mlx0'' [74, 200, 249, 27, 170, 87, 239, 25] 0,
         CallReadFile ''/sys/class/infiniband/mlx0/device/sriov/0/port'']))"
proof -
  let ?g = "''4a:c8:f9:1b:aa:57:ef:19''"
  let ?vol = "[''last_state.vf.id'' \<mapsto> ''0'', ''last_state.vf.node_guid'' \<mapsto> ?g,
       ''last_state.vf.port_guid'' \<mapsto> ?g]"
  let ?node = "''/sys/class/infiniband/mlx0/device/sriov/0/node''"
  let ?port = "''/sys/class/infiniband/mlx0/device/sriov/0/port''"
  let ?w0 = "\<lparr>sysfs = [(?node, ''00:00:00:00:00:00:00:00'' @ [CHR 0x0A]), (?port, ?g @ [CHR 0x0A])],
        hwaddrs = [], failing = []\<rparr>"
  let ?w1 = "\<lparr>sysfs = [(?node, ?g @ [CHR 0x0A]), (?node, ''00:00:00:00:00:00:00:00'' @ [CHR 0x0A]),
                  (?port, ?g @ [CHR 0x0A])],
        hwaddrs = [], failing = []\<rparr>"
  let ?linkset = "CallLinkSetNodeGUID ''mlx0'' [74, 200, 249, 27, 170, 87, 239, 25] 0"
  have id: "lookup ?vol ''last_state.vf.id'' \<noteq> []"
    by (simp add: lookup_def)
  have parse: "ParseUint_10_32 (lookup ?vol ''last_state.vf.id'') = Inr 0"
    by (simp add: lookup_def ParseUint_10_32_def)
  have node: "lookup ?vol ''last_state.vf.node_guid'' = ?g"
    by (simp add: lookup_def)
  have port: "lookup ?vol ''last_state.vf.port_guid'' = ?g"
    by (simp add: lookup_def)
  have g: "?g \<noteq> []"
    by simp
  have set_node: "infinibandSetVFNodeGUID simHost ''mlx0'' (int 0) ?g (?w0, [])
      = (None, (?w1, [CallReadFile ?node, ?linkset]))"
    unfolding infinibandSetVFNodeGUID_def infinibandGetVFNodeGUID_def
    by (simp add: Sprintf_d_def digits.simps do_ReadFile_def simHost_def TrimSpace_example [simplified]
        ParseMAC_example do_LinkSetNodeGUID_def sriovFile_mlx0_0 showGUID_example [simplified])
  have set_port: "infinibandSetVFPortGUID simHost ''mlx0'' (int 0) ?g (?w1, [CallReadFile ?node, ?linkset])
      = (None, (?w1, [CallReadFile ?node, ?linkset, CallReadFile ?port]))"
    unfolding infinibandSetVFPortGUID_def infinibandGetVFPortGUID_def
    by (simp add: Sprintf_d_def digits.simps do_ReadFile_def simHost_def TrimSpace_example [simplified])
  from Restore_node_then_port [OF id parse node g port g, of simHost "''mlx0''" "(?w0, [])",
      THEN conjunct2, THEN conjunct2, THEN spec, THEN mp, OF set_node, THEN conjunct1]
  show ?thesis
    unfolding set_port by simp
qed

text \<open>
  The claim as stated, that a failure of the node GUID restore does not prevent the port
  GUID restore from being attempted, fails on a host where the node GUID of the virtual
  function cannot be read while its port GUID can: the function returns after the one read.
\<close>

theorem Restore_independent_counterexample:
  "infinibandRestoreGUIDs simHost ''mlx0''
      [''last_state.vf.id'' \<mapsto> ''0'',
       ''last_state.vf.node_guid'' \<mapsto> ''4a:c8:f9:1b:aa:57:ef:19'',
       ''last_state.vf.port_guid'' \<mapsto> ''4a:c8:f9:1b:aa:57:ef:19'']
      (\<lparr>sysfs = [(''/sys/class/infiniband/mlx0/device/sriov/0/port'',
                   ''00:00:00:00:00:00:00:00'' @ [CHR 0x0A])],
        hwaddrs = [], failing = []\<rparr>, [])
    = (Some (ErrRestoreNodeGUID ''mlx0'' 0 ''4a:c8:f9:1b:aa:57:ef:19''
               (ExternalError ''no such file or directory'')),
       (\<lparr>sysfs = [(''/sys/class/infiniband/mlx0/device/sriov/0/port'',
                    ''00:00:00:00:00:00:00:00'' @ [CHR 0x0A])],
         hwaddrs = [], failing = []\<rparr>,
        [CallReadFile ''/sys/class/infiniband/mlx0/device/sriov/0/node'']))
   \<and> CallReadFile ''/sys/class/infiniband/mlx0/device/sriov/0/port''
        \<notin> set [CallReadFile ''/sys/class/infiniband/mlx0/device/sriov/0/node'']"
  unfolding infinibandRestoreGUIDs_def infinibandSetVFNodeGUID_def infinibandGetVFNodeGUID_def
  by (simp add: lookup_def ParseUint_10_32_def Sprintf_d_def digits.simps do_ReadFile_def simHost_def)

subsection \<open>The port and VF matcher\<close>

text \<open>
  Within one card the body of the VF loop follows the rule of lines 56 to 64: with no
  \<open>parentDev\<close> a VF port is kept when its identifier is the parent, and with a
  \<open>parentDev\<close> when it is on the same physical port. The loop over the ports of a card
  changes the entry of the parent only, and that entry exists afterwards when it existed
  before or an InfiniBand port of the card has the identifier of the parent. So
  \<open>parentDev\<close> is a physical function of the card on the first card, but on a later card
  it can be an entry that an earlier card left.
\<close>

lemma vfStep_rule:
  "vfStep parent parentDev ibDevs port =
     (if Protocol port = ''infiniband''
         \<and> (case parentDev of None \<Rightarrow> ID port = parent | Some pf \<Rightarrow> Port pf = Port port)
      then ibDevs(ID port \<mapsto> port) else ibDevs)"
  by (simp add: vfStep_def split: option.splits)

lemma pfStep_other: "k \<noteq> parent \<Longrightarrow> foldl (pfStep parent) ibDevs ports k = ibDevs k"
  by (induction ports arbitrary: ibDevs) (auto simp: pfStep_def)

lemma pfStep_parent:
  "(foldl (pfStep parent) ibDevs ports parent \<noteq> None) =
     (ibDevs parent \<noteq> None \<or> (\<exists>p. p \<in> set ports \<and> Protocol p = ''infiniband'' \<and> ID p = parent))"
  by (induction ports arbitrary: ibDevs) (auto simp: pfStep_def)

text \<open>
  C2: on the inventory of card X alone the matcher returns \<open>p1\<close> and \<open>v1\<close> for the parent
  \<open>p1\<close>, and \<open>v2\<close> alone for the parent \<open>v2\<close>, as the claim states. On the inventory of
  the cards X and Y the parent \<open>v2\<close> is no physical function, yet the result has the virtual
  function \<open>w1\<close> of card Y, whose identifier is not the parent: when card Y is scanned, the
  lookup of line 47 finds the entry that the scan of card X stored for \<open>v2\<close>.
\<close>

theorem infinibandDevices_second_card:
  "infinibandDevices (ResourcesNetwork [cardX]) ''p1''
     = [''p1'' \<mapsto> ibPort ''p1'' 1, ''v1'' \<mapsto> ibPort ''v1'' 1]
   \<and> infinibandDevices (ResourcesNetwork [cardX]) ''v2'' = [''v2'' \<mapsto> ibPort ''v2'' 2]
   \<and> infinibandDevices (ResourcesNetwork [cardX, cardY]) ''v2''
       = [''v2'' \<mapsto> ibPort ''v2'' 2, ''w1'' \<mapsto> ibPort ''w1'' 2]
   \<and> dom (infinibandDevices (ResourcesNetwork [cardX, cardY]) ''v2'') = {''v2'', ''w1''}"
  by (auto simp: infinibandDevices_def cardStep_def pfStep_def vfStep_def cardX_def cardY_def
      ibPort_def)

end
